theory Spec2Isabelle
  imports Complex_Main "HOL-Library.Monad_Syntax"
begin

section \<open>Tensors and the arithmetic of the loss functions\<close>

text \<open>
  The loss functions of \<^verbatim>\<open>XAE/model.py\<close> work on two-dimensional tensors:
  a batch is a list of rows, a row a list of entries. Entries are modelled as
  real numbers, so every operation is the exact one; the rounding of the
  framework's floating-point numbers is not part of this model.

  A result is an \<open>option\<close>: \<open>None\<close> stands for a run that yields no real
  number, because the tensor library raises on shapes that do not broadcast, or
  because a division by zero or the mean of an empty tensor gives an infinity
  or a NaN.

  A tensor without rows carries no column count in this representation.
\<close>

type_synonym tensor = "real list list"

definition wf_tensor :: "nat \<Rightarrow> tensor \<Rightarrow> bool" where
  "wf_tensor d x = (\<forall>r \<in> set x. length r = d)"

definition pdiv :: "real \<Rightarrow> real \<Rightarrow> real option" where
  "pdiv a b = (if b = 0 then None else Some (a / b))"

text \<open>Elementwise binary operation on one dimension, with the broadcasting
  rule of the tensor library: equal sizes, or one of the two sizes is 1.\<close>

definition bcast :: "('a \<Rightarrow> 'a \<Rightarrow> 'b) \<Rightarrow> 'a list \<Rightarrow> 'a list \<Rightarrow> 'b list option" where
  "bcast f u v =
     (if length u = length v then Some (map2 f u v)
      else if length u = 1 then Some (map (f (hd u)) v)
      else if length v = 1 then Some (map (\<lambda>a. f a (hd v)) u)
      else None)"

text \<open>The same on two dimensions (rows, then entries).\<close>

definition bcast2 :: "(real \<Rightarrow> real \<Rightarrow> real) \<Rightarrow> tensor \<Rightarrow> tensor \<Rightarrow> tensor option" where
  "bcast2 f A B =
     (if length A = length B then those (map2 (bcast f) A B)
      else if length A = 1 then those (map (bcast f (hd A)) B)
      else if length B = 1 then those (map (\<lambda>a. bcast f a (hd B)) A)
      else None)"

text \<open>\<^verbatim>\<open>(u - v).pow(2).sum()\<close> for two rows.\<close>

definition sq_dist :: "real list \<Rightarrow> real list \<Rightarrow> real option" where
  "sq_dist u v = map_option (\<lambda>d. sum_list (map (\<lambda>t. t ^ 2) d)) (bcast (-) u v)"

text \<open>\<^verbatim>\<open>(x.unsqueeze(0) - y.unsqueeze(1)).pow(2).sum(dim=2)\<close>: one row for each
  row of \<open>y\<close>, one entry in it for each row of \<open>x\<close>.\<close>

definition dist_table :: "tensor \<Rightarrow> tensor \<Rightarrow> tensor option" where
  "dist_table x y = those (map (\<lambda>v. those (map (\<lambda>u. sq_dist u v) x)) y)"

definition tsum :: "tensor \<Rightarrow> real" where
  "tsum M = sum_list (map sum_list M)"

text \<open>\<^verbatim>\<open>M.diag()\<close> of a matrix with \<open>n\<close> columns.\<close>

definition diag :: "nat \<Rightarrow> tensor \<Rightarrow> real list" where
  "diag n M = map (\<lambda>i. M ! i ! i) [0..<min (length M) n]"

text \<open>\<^verbatim>\<open>M.transpose(0, 1)\<close> of a matrix with \<open>n\<close> columns.\<close>

definition transpose_t :: "nat \<Rightarrow> tensor \<Rightarrow> tensor" where
  "transpose_t n M = map (\<lambda>i. map (\<lambda>r. r ! i) M) [0..<n]"

text \<open>\<^verbatim>\<open>C / (C + D)\<close> for a scalar \<open>C\<close> and a matrix \<open>D\<close>.\<close>

definition imq :: "real \<Rightarrow> tensor \<Rightarrow> tensor option" where
  "imq C D = those (map (\<lambda>r. those (map (\<lambda>d. pdiv C (C + d)) r)) D)"

definition scales :: "real list" where
  "scales = [0.1, 0.2, 0.5, 1.0, 2.0, 5.0, 10.0]"

subsection \<open>\<^verbatim>\<open>WAE_MMD_abstract\<close> and \<^verbatim>\<open>CWAE_MMD_abstract\<close>\<close>

text \<open>\<^verbatim>\<open>k\<close>: the loop over the scales is a fold on the running \<^verbatim>\<open>stat\<close>.
  The attribute \<^verbatim>\<open>z_dim\<close> is a parameter.\<close>

definition WAE_MMD_k :: "int \<Rightarrow> tensor \<Rightarrow> tensor \<Rightarrow> bool \<Rightarrow> real option" where
  "WAE_MMD_k z_dim x y dg =
     foldl (\<lambda>acc scale. do {
         stat \<leftarrow> acc;
         let C = scale * 2 * of_int z_dim * 2;
         D \<leftarrow> dist_table x y;
         kernel \<leftarrow> imq C D;
         if dg then Some (stat + tsum kernel)
         else Some (stat + (tsum kernel - sum_list (diag (length x) kernel)))
       }) (Some 0.0) scales"

definition WAE_MMD_penalty_loss :: "int \<Rightarrow> tensor \<Rightarrow> tensor \<Rightarrow> int \<Rightarrow> real option" where
  "WAE_MMD_penalty_loss z_dim x y n =
     do {
       kxx \<leftarrow> WAE_MMD_k z_dim x x False;
       kyy \<leftarrow> WAE_MMD_k z_dim y y False;
       a \<leftarrow> pdiv (kxx + kyy) (of_int (n * (n - 1)));
       kxy \<leftarrow> WAE_MMD_k z_dim x y True;
       b \<leftarrow> pdiv (2 * kxy) (of_int (n * n));
       Some (a - b)
     }"

definition CWAE_MMD_k :: "int \<Rightarrow> tensor \<Rightarrow> tensor \<Rightarrow> bool \<Rightarrow> real option" where
  "CWAE_MMD_k z_dim x y dg =
     foldl (\<lambda>acc scale. do {
         stat \<leftarrow> acc;
         let C = scale * 2 * of_int z_dim * 2;
         D \<leftarrow> dist_table x y;
         kernel \<leftarrow> imq C D;
         if dg then Some (stat + tsum kernel)
         else Some (stat + (tsum kernel - sum_list (diag (length x) kernel)))
       }) (Some 0.0) scales"

definition CWAE_MMD_penalty_loss :: "int \<Rightarrow> tensor \<Rightarrow> tensor \<Rightarrow> int \<Rightarrow> real option" where
  "CWAE_MMD_penalty_loss z_dim x y n =
     do {
       kxx \<leftarrow> CWAE_MMD_k z_dim x x False;
       kyy \<leftarrow> CWAE_MMD_k z_dim y y False;
       a \<leftarrow> pdiv (kxx + kyy) (of_int (n * (n - 1)));
       kxy \<leftarrow> CWAE_MMD_k z_dim x y True;
       b \<leftarrow> pdiv (2 * kxy) (of_int (n * n));
       Some (a - b)
     }"

subsection \<open>\<^verbatim>\<open>SSWAE_HSIC_dev\<close> and \<^verbatim>\<open>SSWAE_HSIC_dev2\<close>\<close>

text \<open>
  The discriminator network and \<^verbatim>\<open>nn.BCEWithLogitsLoss\<close> belong to the tensor
  framework, and \<^verbatim>\<open>gamma\<close> to \<^verbatim>\<open>scipy.special\<close>: they are parameters of the
  model. \<^verbatim>\<open>gamma\<close> has no finite value at its poles.
\<close>

record hsic_model =
  y_dim :: int
  discriminate :: "tensor \<Rightarrow> tensor option"
  disc_loss :: "tensor \<Rightarrow> tensor \<Rightarrow> real option"
  gamma :: "real \<Rightarrow> real option"

text \<open>The bound of a Python slice \<^verbatim>\<open>r[:k]\<close> or \<^verbatim>\<open>r[k:]\<close> on a row of length \<open>L\<close>:
  a negative bound counts from the end, and bounds are clipped to the row.\<close>

definition slice_idx :: "int \<Rightarrow> nat \<Rightarrow> nat" where
  "slice_idx k L = (if k < 0 then nat (max 0 (int L + k)) else min (nat k) L)"

text \<open>\<^verbatim>\<open>q[:, 0:k]\<close> and \<^verbatim>\<open>q[:, k:]\<close>.\<close>

definition cols_upto :: "int \<Rightarrow> tensor \<Rightarrow> tensor" where
  "cols_upto k q = map (\<lambda>r. take (slice_idx k (length r)) r) q"

definition cols_from :: "int \<Rightarrow> tensor \<Rightarrow> tensor" where
  "cols_from k q = map (\<lambda>r. drop (slice_idx k (length r)) r) q"

definition ones_like :: "tensor \<Rightarrow> tensor" where
  "ones_like t = map (map (\<lambda>_. 1)) t"

text \<open>\<^verbatim>\<open>x.shape[1]\<close>, where the tensor has a row to read it from. \<^verbatim>\<open>hsic\<close> is the
  only reader; on a tensor without rows its kernel matrix is empty and the mean
  of it is a NaN, so that it has no value there whatever the column count.\<close>

definition shape1 :: "tensor \<Rightarrow> nat option" where
  "shape1 x = (case x of [] \<Rightarrow> None | r # _ \<Rightarrow> Some (length r))"

text \<open>\<^verbatim>\<open>M.mean()\<close>, \<^verbatim>\<open>v.mean()\<close> on one dimension, and \<^verbatim>\<open>M.mean(dim=1)\<close>.\<close>

definition mean1 :: "real list \<Rightarrow> real option" where
  "mean1 v = pdiv (sum_list v) (real (length v))"

definition tmean :: "tensor \<Rightarrow> real option" where
  "tmean M = pdiv (tsum M) (real (length (concat M)))"

definition mean_dim1 :: "tensor \<Rightarrow> real list option" where
  "mean_dim1 M = those (map mean1 M)"

definition SSWAE_HSIC_dev_k :: "hsic_model \<Rightarrow> tensor \<Rightarrow> tensor \<Rightarrow> bool \<Rightarrow> real option" where
  "SSWAE_HSIC_dev_k self x y dg =
     foldl (\<lambda>acc scale. do {
         stat \<leftarrow> acc;
         let C = scale * 2 * of_int (y_dim self) * 2;
         D \<leftarrow> dist_table x y;
         kernel \<leftarrow> imq C D;
         if dg then Some (stat + tsum kernel)
         else Some (stat + (tsum kernel - sum_list (diag (length x) kernel)))
       }) (Some 0.0) scales"

definition SSWAE_HSIC_dev_bandwidth :: "hsic_model \<Rightarrow> nat \<Rightarrow> real option" where
  "SSWAE_HSIC_dev_bandwidth self d =
     do {
       a \<leftarrow> gamma self (0.5 * (real d + 1));
       b \<leftarrow> gamma self (0.5 * real d);
       gz \<leftarrow> pdiv (2 * a) b;
       pdiv 1.0 (2.0 * gz ^ 2)
     }"

definition SSWAE_HSIC_dev_knl :: "tensor \<Rightarrow> tensor \<Rightarrow> real \<Rightarrow> tensor option" where
  "SSWAE_HSIC_dev_knl x y gam =
     do {
       table \<leftarrow> dist_table x y;
       Some (transpose_t (length x) (map (map (\<lambda>d. exp (- gam * d))) table))
     }"

definition SSWAE_HSIC_dev_hsic :: "hsic_model \<Rightarrow> tensor \<Rightarrow> tensor \<Rightarrow> real option" where
  "SSWAE_HSIC_dev_hsic self x y =
     do {
       dx \<leftarrow> shape1 x;
       dy \<leftarrow> shape1 y;
       gx \<leftarrow> SSWAE_HSIC_dev_bandwidth self dx;
       xx \<leftarrow> SSWAE_HSIC_dev_knl x x gx;
       gy \<leftarrow> SSWAE_HSIC_dev_bandwidth self dy;
       yy \<leftarrow> SSWAE_HSIC_dev_knl y y gy;
       xy \<leftarrow> bcast2 (*) xx yy;
       m1 \<leftarrow> tmean xy;
       mx \<leftarrow> tmean xx;
       my \<leftarrow> tmean yy;
       rx \<leftarrow> mean_dim1 xx;
       ry \<leftarrow> mean_dim1 yy;
       rxy \<leftarrow> bcast (*) rx ry;
       m2 \<leftarrow> mean1 rxy;
       let res = m1 + mx * my;
       let res = res - 2 * m2;
       Some (sqrt (max res (1 / 10 ^ 16)))
     }"

definition SSWAE_HSIC_dev_penalty_loss ::
  "hsic_model \<Rightarrow> tensor \<Rightarrow> tensor \<Rightarrow> int \<Rightarrow> (real \<times> real \<times> real) option" where
  "SSWAE_HSIC_dev_penalty_loss self q prior_y n =
     do {
       let x = cols_upto (y_dim self) q;
       let y = prior_y;
       kxx \<leftarrow> SSWAE_HSIC_dev_k self x x False;
       kyy \<leftarrow> SSWAE_HSIC_dev_k self y y False;
       a \<leftarrow> pdiv (kxx + kyy) (of_int (n * (n - 1)));
       kxy \<leftarrow> SSWAE_HSIC_dev_k self x y True;
       b \<leftarrow> pdiv (2 * kxy) (of_int (n * n));
       let mmd = a - b;
       let z = cols_from (y_dim self) q;
       qz \<leftarrow> discriminate self z;
       gan \<leftarrow> disc_loss self qz (ones_like qz);
       hsic \<leftarrow> SSWAE_HSIC_dev_hsic self x z;
       Some (gan, mmd, hsic)
     }"

definition SSWAE_HSIC_dev2_k :: "hsic_model \<Rightarrow> tensor \<Rightarrow> tensor \<Rightarrow> bool \<Rightarrow> real option" where
  "SSWAE_HSIC_dev2_k self x y dg =
     foldl (\<lambda>acc scale. do {
         stat \<leftarrow> acc;
         let C = scale * 2 * of_int (y_dim self) * 2;
         D \<leftarrow> dist_table x y;
         kernel \<leftarrow> imq C D;
         if dg then Some (stat + tsum kernel)
         else Some (stat + (tsum kernel - sum_list (diag (length x) kernel)))
       }) (Some 0.0) scales"

definition SSWAE_HSIC_dev2_bandwidth :: "hsic_model \<Rightarrow> nat \<Rightarrow> real option" where
  "SSWAE_HSIC_dev2_bandwidth self d =
     do {
       a \<leftarrow> gamma self (0.5 * (real d + 1));
       b \<leftarrow> gamma self (0.5 * real d);
       gz \<leftarrow> pdiv (2 * a) b;
       pdiv 1.0 (2.0 * gz ^ 2)
     }"

definition SSWAE_HSIC_dev2_knl :: "tensor \<Rightarrow> tensor \<Rightarrow> real \<Rightarrow> tensor option" where
  "SSWAE_HSIC_dev2_knl x y gam =
     do {
       table \<leftarrow> dist_table x y;
       Some (transpose_t (length x) (map (map (\<lambda>d. exp (- gam * d))) table))
     }"

definition SSWAE_HSIC_dev2_hsic :: "hsic_model \<Rightarrow> tensor \<Rightarrow> tensor \<Rightarrow> real option" where
  "SSWAE_HSIC_dev2_hsic self x y =
     do {
       dx \<leftarrow> shape1 x;
       dy \<leftarrow> shape1 y;
       gx \<leftarrow> SSWAE_HSIC_dev2_bandwidth self dx;
       xx \<leftarrow> SSWAE_HSIC_dev2_knl x x gx;
       gy \<leftarrow> SSWAE_HSIC_dev2_bandwidth self dy;
       yy \<leftarrow> SSWAE_HSIC_dev2_knl y y gy;
       xy \<leftarrow> bcast2 (*) xx yy;
       m1 \<leftarrow> tmean xy;
       mx \<leftarrow> tmean xx;
       my \<leftarrow> tmean yy;
       rx \<leftarrow> mean_dim1 xx;
       ry \<leftarrow> mean_dim1 yy;
       rxy \<leftarrow> bcast (*) rx ry;
       m2 \<leftarrow> mean1 rxy;
       let res = m1 + mx * my;
       let res = res - 2 * m2;
       Some (sqrt (max res (1 / 10 ^ 16)))
     }"

definition SSWAE_HSIC_dev2_penalty_loss ::
  "hsic_model \<Rightarrow> tensor \<Rightarrow> tensor \<Rightarrow> int \<Rightarrow> (real \<times> real \<times> real) option" where
  "SSWAE_HSIC_dev2_penalty_loss self q prior_y n =
     do {
       let x = cols_upto (y_dim self) q;
       kxx \<leftarrow> SSWAE_HSIC_dev2_k self x x False;
       kpp \<leftarrow> SSWAE_HSIC_dev2_k self prior_y prior_y False;
       a \<leftarrow> pdiv (kxx + kpp) (of_int (n * (n - 1)));
       kxp \<leftarrow> SSWAE_HSIC_dev2_k self x prior_y True;
       b \<leftarrow> pdiv (2 * kxp) (of_int (n * n));
       let mmd = a - b;
       let z = cols_from (y_dim self) q;
       qz \<leftarrow> discriminate self z;
       gan \<leftarrow> disc_loss self qz (ones_like qz);
       hsic \<leftarrow> SSWAE_HSIC_dev2_hsic self x z;
       Some (gan, mmd, hsic)
     }"

subsection \<open>\<^verbatim>\<open>VAE_abstract\<close> and \<^verbatim>\<open>CVAE_abstract\<close>\<close>



section \<open>The loss functions as the specification words them\<close>

text \<open>
  The kernel statistic of the specification: the squared distance of two rows,
  the inverse-multiquadratic kernel \<open>C / (C + \<parallel>a\<^sub>i - b\<^sub>j\<parallel>\<^sup>2)\<close> with
  \<open>C = scale * 2 * z_dim * 2\<close>, summed over the seven scales and over all entries
  (over the entries off the diagonal when the flag is \<open>False\<close>), and the MMD
  penalty built from it. \<open>ker\<close>, \<open>k_ok\<close>, \<open>k_term\<close> and \<open>kl_entry\<close> name parts
  of the computations in the proofs: one entry of a kernel matrix, the
  condition under which a kernel matrix has a value, the contribution of one
  scale to \<^verbatim>\<open>k\<close>, and one entry of the sum in the KL penalty.
\<close>

definition ker :: "real \<Rightarrow> real list \<Rightarrow> real list \<Rightarrow> real" where
  "ker C u v = C / (C + the (sq_dist u v))"

definition k_ok :: "real \<Rightarrow> tensor \<Rightarrow> tensor \<Rightarrow> bool" where
  "k_ok C x y = (\<forall>v\<in>set y. \<forall>u\<in>set x. sq_dist u v \<noteq> None \<and> C + the (sq_dist u v) \<noteq> 0)"

definition k_term :: "real \<Rightarrow> tensor \<Rightarrow> tensor \<Rightarrow> bool \<Rightarrow> real option" where
  "k_term C x y dg =
     do {
       D \<leftarrow> dist_table x y;
       kernel \<leftarrow> imq C D;
       if dg then Some (tsum kernel)
       else Some (tsum kernel - sum_list (diag (length x) kernel))
     }"

definition spec_sqnorm :: "real list \<Rightarrow> real list \<Rightarrow> real" where
  "spec_sqnorm a b = (\<Sum>(s, t)\<leftarrow>zip a b. (s - t) ^ 2)"

definition spec_k :: "int \<Rightarrow> tensor \<Rightarrow> tensor \<Rightarrow> bool \<Rightarrow> real" where
  "spec_k z_dim a b dg =
     (\<Sum>scale\<leftarrow>scales.
        let C = scale * 2 * of_int z_dim * 2 in
        \<Sum>i\<leftarrow>[0..<length a]. \<Sum>j\<leftarrow>[0..<length b].
          if dg \<or> i \<noteq> j then C / (C + spec_sqnorm (a ! i) (b ! j)) else 0)"

definition spec_mmd :: "int \<Rightarrow> tensor \<Rightarrow> tensor \<Rightarrow> nat \<Rightarrow> real" where
  "spec_mmd z_dim x y n =
     (spec_k z_dim x x False + spec_k z_dim y y False) / (real n * (real n - 1))
       - 2 * spec_k z_dim x y True / (real n * real n)"

definition spec_k_term :: "real \<Rightarrow> tensor \<Rightarrow> tensor \<Rightarrow> bool \<Rightarrow> real" where
  "spec_k_term C a b dg =
     (\<Sum>i\<leftarrow>[0..<length a]. \<Sum>j\<leftarrow>[0..<length b].
          if dg \<or> i \<noteq> j then C / (C + spec_sqnorm (a ! i) (b ! j)) else 0)"


section \<open>Configuration and constructors\<close>

datatype error =
  KeyError | ValueError | NameError | NotImplementedError | FileNotFoundError | TypeError | RuntimeError

text \<open>
  The configuration is the parsed file: sections by name, in each section the
  values (strings) by key. \<^verbatim>\<open>cfg[s][k]\<close> raises \<^verbatim>\<open>KeyError\<close> when the section
  or the key is missing.
\<close>

type_synonym config = "string \<rightharpoonup> (string \<rightharpoonup> string)"

definition cfg_get :: "config \<Rightarrow> string \<Rightarrow> string \<Rightarrow> error + string" where
  "cfg_get cfg s k =
     (case cfg s of
        None \<Rightarrow> Inl KeyError
      | Some sec \<Rightarrow> (case sec k of None \<Rightarrow> Inl KeyError | Some v \<Rightarrow> Inr v))"

text \<open>Sequencing: an error ends the run of the statements that follow.\<close>

definition ebind :: "error + 'a \<Rightarrow> ('a \<Rightarrow> error + 'c) \<Rightarrow> error + 'c" where
  "ebind m f = (case m of Inl e \<Rightarrow> Inl e | Inr v \<Rightarrow> f v)"

text \<open>\<^verbatim>\<open>s.replace(" ", "")\<close> and \<^verbatim>\<open>s.split(",")\<close>.\<close>

definition remove_spaces :: "string \<Rightarrow> string" where
  "remove_spaces s = filter (\<lambda>c. c \<noteq> CHR '' '') s"

fun split_comma :: "string \<Rightarrow> string list" where
  "split_comma [] = [[]]"
| "split_comma (c # cs) =
     (if c = CHR '','' then [] # split_comma cs
      else (case split_comma cs of
              [] \<Rightarrow> [[c]]
            | p # ps \<Rightarrow> (c # p) # ps))"

text \<open>
  The builtins \<^verbatim>\<open>int\<close> and \<^verbatim>\<open>float\<close> are parameters: \<open>None\<close> where they raise
  \<^verbatim>\<open>ValueError\<close>.
\<close>

record builtins =
  py_int :: "string \<Rightarrow> int option"
  py_float :: "string \<Rightarrow> real option"

definition to_float :: "builtins \<Rightarrow> string \<Rightarrow> error + real" where
  "to_float b s = (case py_float b s of None \<Rightarrow> Inl ValueError | Some r \<Rightarrow> Inr r)"

definition to_int :: "builtins \<Rightarrow> string \<Rightarrow> error + int" where
  "to_int b s = (case py_int b s of None \<Rightarrow> Inl ValueError | Some i \<Rightarrow> Inr i)"

text \<open>\<^verbatim>\<open>[int(i) for i in xs]\<close>\<close>

definition int_list :: "builtins \<Rightarrow> string list \<Rightarrow> error + int list" where
  "int_list b xs = (case those (map (py_int b) xs) of None \<Rightarrow> Inl ValueError | Some is \<Rightarrow> Inr is)"

datatype nn_module = CrossEntropyLoss | MSELoss | BCEWithLogitsLoss | Identity

text \<open>
  \<^verbatim>\<open>classifier_abstract.__init__\<close>. The constructor of the base class
  \<^verbatim>\<open>XAE_abstract\<close> is a parameter: it gives the attributes it sets, or raises.
\<close>

record 'b classifier_abstract =
  base :: 'b
  loss :: nn_module
  labeled_class :: "int list"
  portion :: real

definition classifier_abstract_init ::
  "builtins \<Rightarrow> (config \<Rightarrow> error + 'b) \<Rightarrow> config \<Rightarrow> error + 'b classifier_abstract" where
  "classifier_abstract_init b super_init cfg =
     ebind (super_init cfg) (\<lambda>bs.
     ebind (cfg_get cfg ''train_info'' ''labeled_class'') (\<lambda>s.
     ebind (int_list b (split_comma (remove_spaces s))) (\<lambda>lc.
     ebind (case ebind (cfg_get cfg ''train_info'' ''portion'') (to_float b) of
              Inl KeyError \<Rightarrow> Inr 1.0
            | Inl e \<Rightarrow> Inl e
            | Inr p \<Rightarrow> Inr p) (\<lambda>p.
       Inr \<lparr>base = bs, loss = CrossEntropyLoss, labeled_class = lc, portion = p\<rparr>))))"

text \<open>
  \<^verbatim>\<open>SSWAE_HSIC_dev2.__init__\<close>, with the constructor of \<^verbatim>\<open>CWAE_GAN_abstract\<close> as a
  parameter. The bare \<^verbatim>\<open>except\<close> around \<^verbatim>\<open>test_class\<close> catches every error.
\<close>

record 'b SSWAE_HSIC_dev2 =
  base2 :: 'b
  loss2 :: nn_module
  disc_loss2 :: nn_module
  f1 :: nn_module
  lamb_mmd2 :: real
  lamb_hsic2 :: real
  labeled_class2 :: "int list"
  test_class :: "int list"
  portion2 :: real
  batch_size :: int

definition SSWAE_HSIC_dev2_init ::
  "builtins \<Rightarrow> (config \<Rightarrow> error + 'b) \<Rightarrow> config \<Rightarrow> error + 'b SSWAE_HSIC_dev2" where
  "SSWAE_HSIC_dev2_init b super_init cfg =
     ebind (super_init cfg) (\<lambda>bs.
     ebind (ebind (cfg_get cfg ''train_info'' ''lambda_mmd'') (to_float b)) (\<lambda>lm.
     ebind (ebind (cfg_get cfg ''train_info'' ''lambda_hsic'') (to_float b)) (\<lambda>lh.
     ebind (cfg_get cfg ''train_info'' ''labeled_class'') (\<lambda>s.
     ebind (int_list b (split_comma (remove_spaces s))) (\<lambda>lc.
     ebind (case ebind (cfg_get cfg ''train_info'' ''test_class'')
                   (\<lambda>t. int_list b (split_comma (remove_spaces t))) of
              Inl e \<Rightarrow> Inr []
            | Inr tc \<Rightarrow> Inr tc) (\<lambda>tc.
     ebind (ebind (cfg_get cfg ''train_info'' ''portion'') (to_float b)) (\<lambda>p.
     ebind (ebind (cfg_get cfg ''train_info'' ''batch_size'') (to_int b)) (\<lambda>bsz.
       Inr \<lparr>base2 = bs, loss2 = MSELoss, disc_loss2 = BCEWithLogitsLoss, f1 = Identity,
            lamb_mmd2 = lm, lamb_hsic2 = lh, labeled_class2 = lc, test_class = tc,
            portion2 = p, batch_size = bsz\<rparr>))))))))"

section \<open>Training loops\<close>

text \<open>
  The attributes the loops read. They are set by the constructors of the base
  classes from the configuration.
\<close>

record train_attrs =
  num_epoch :: int
  save_state :: string
  lr_schedule :: string
  validate_batch :: bool
  save_best :: bool
  encoder_pretrain :: bool
  encoder_pretrain_step :: int
  lamb :: real

text \<open>
  A checkpoint is the dictionary given to \<^verbatim>\<open>torch.save\<close>: keys in insertion
  order, each once. The state dictionaries of the model (\<open>'m\<close>), of an optimizer
  (\<open>'o\<close>) and of a scheduler (\<open>'s\<close>) belong to the framework.
\<close>

datatype ('m, 'o, 's) ckpt_val = EpochV int | ModelV 'm | OptimV 'o | SchedV 's

type_synonym ('m, 'o, 's) ckpt = "(string \<times> ('m, 'o, 's) ckpt_val) list"

text \<open>\<^verbatim>\<open>checkpoint[key]\<close>, read at the type the caller expects.\<close>

definition ckpt_epoch :: "('m, 'o, 's) ckpt \<Rightarrow> string \<Rightarrow> error + int" where
  "ckpt_epoch ck key =
     (case map_of ck key of None \<Rightarrow> Inl KeyError | Some (EpochV e) \<Rightarrow> Inr e | Some _ \<Rightarrow> Inl TypeError)"

definition ckpt_model :: "('m, 'o, 's) ckpt \<Rightarrow> string \<Rightarrow> error + 'm" where
  "ckpt_model ck key =
     (case map_of ck key of None \<Rightarrow> Inl KeyError | Some (ModelV m) \<Rightarrow> Inr m | Some _ \<Rightarrow> Inl TypeError)"

definition ckpt_optim :: "('m, 'o, 's) ckpt \<Rightarrow> string \<Rightarrow> error + 'o" where
  "ckpt_optim ck key =
     (case map_of ck key of None \<Rightarrow> Inl KeyError | Some (OptimV opt) \<Rightarrow> Inr opt | Some _ \<Rightarrow> Inl TypeError)"

definition ckpt_sched :: "('m, 'o, 's) ckpt \<Rightarrow> string \<Rightarrow> error + 's" where
  "ckpt_sched ck key =
     (case map_of ck key of None \<Rightarrow> Inl KeyError | Some (SchedV sc) \<Rightarrow> Inr sc | Some _ \<Rightarrow> Inl TypeError)"

text \<open>\<^verbatim>\<open>torch.load(path)\<close> on the files written so far.\<close>

definition torch_load :: "(string \<rightharpoonup> ('m, 'o, 's) ckpt) \<Rightarrow> string \<Rightarrow> error + ('m, 'o, 's) ckpt" where
  "torch_load fs path = (case fs path of None \<Rightarrow> Inl FileNotFoundError | Some ck \<Rightarrow> Inr ck)"

text \<open>\<^verbatim>\<open>range(a, b)\<close>\<close>

definition py_range :: "int \<Rightarrow> int \<Rightarrow> int list" where
  "py_range a b = [a..b - 1]"

text \<open>
  Reading \<^verbatim>\<open>name.avg\<close> for a local variable of the running function: the
  scope lists the metric accumulators that the function has bound so far, with
  their averages. A name that is not bound raises \<^verbatim>\<open>NameError\<close>.
\<close>

definition local_avg :: "(string \<times> real) list \<Rightarrow> string \<Rightarrow> error + real" where
  "local_avg scope name = (case map_of scope name of None \<Rightarrow> Inl NameError | Some v \<Rightarrow> Inr v)"

subsection \<open>The loops with one optimizer\<close>

text \<open>
  The state of a run, as far as every loop has it: the model (its
  \<^verbatim>\<open>state_dict\<close>), the best objective so far (\<^verbatim>\<open>self.best_obj\<close>), the model written
  by \<^verbatim>\<open>self.save\<close>, the files written by \<^verbatim>\<open>torch.save\<close>, and two logs kept for
  the proofs: the epochs whose body was entered and the epochs whose body ran
  to its end.
\<close>

record ('m, 'c) run_common =
  model :: 'm
  best_obj :: "int \<times> real"
  saved_model :: "'m option"
  files :: "string \<rightharpoonup> 'c"
  started :: "int list"
  completed :: "int list"

record ('m, 'c, 'o, 's) run_state = "('m, 'c) run_common" +
  optimizer :: 'o
  scheduler :: 's

text \<open>
  What the framework does is a parameter: a new optimizer and scheduler, the
  pass over the training batches of an epoch (it gives the new model and
  optimizer and the averages of the training metrics, or it raises, which is
  also how a run is interrupted), the pass over the validation batches (the
  averages of the main loss and of the penalty), and a step of the scheduler.
\<close>

record ('m, 'o, 's) framework =
  new_optimizer :: "'m \<Rightarrow> 'o"
  new_scheduler :: "'o \<Rightarrow> 's"
  train_pass :: "int \<Rightarrow> 'm \<Rightarrow> 'o \<Rightarrow> error + ('m \<times> 'o \<times> real \<times> real)"
  validation_pass :: "int \<Rightarrow> 'm \<Rightarrow> error + (real \<times> real)"
  scheduler_step :: "'s \<Rightarrow> 's"

text \<open>The part of \<^verbatim>\<open>train\<close> under \<^verbatim>\<open>if resume:\<close>.\<close>

definition resume_single ::
  "'z train_attrs_scheme \<Rightarrow> ('m, ('m, 'o, 's) ckpt, 'o, 's) run_state
     \<Rightarrow> error + (int \<times> ('m, ('m, 'o, 's) ckpt, 'o, 's) run_state)" where
  "resume_single self st =
     ebind (torch_load (files st) (save_state self)) (\<lambda>checkpoint.
     ebind (ckpt_epoch checkpoint ''epoch'') (\<lambda>start_epoch.
     ebind (ckpt_model checkpoint ''model_state_dict'') (\<lambda>m.
     ebind (ckpt_optim checkpoint ''optimizer_state_dict'') (\<lambda>opt.
       if length (lr_schedule self) > 0
       then ebind (ckpt_sched checkpoint ''scheduler'') (\<lambda>sc.
              Inr (start_epoch, st\<lparr>model := m, optimizer := opt, scheduler := sc\<rparr>))
       else Inr (start_epoch, st\<lparr>model := m, optimizer := opt\<rparr>)))))"

text \<open>The dictionary built at the end of an epoch.\<close>

definition save_dict_single ::
  "'z train_attrs_scheme \<Rightarrow> int \<Rightarrow> ('m, ('m, 'o, 's) ckpt, 'o, 's) run_state \<Rightarrow> ('m, 'o, 's) ckpt" where
  "save_dict_single self epoch st =
     (let save_dict = [(''epoch'', EpochV (epoch + 1)),
                       (''model_state_dict'', ModelV (model st)),
                       (''optimizer_state_dict'', OptimV (optimizer st))]
      in if length (lr_schedule self) > 0
         then save_dict @ [(''scheduler'', SchedV (scheduler st))]
         else save_dict)"

text \<open>The end of the body of an epoch: the scheduler steps, the checkpoint is written.\<close>

definition end_of_epoch_single ::
  "'z train_attrs_scheme \<Rightarrow> ('m, 'o, 's) framework \<Rightarrow> int
     \<Rightarrow> ('m, ('m, 'o, 's) ckpt, 'o, 's) run_state \<Rightarrow> ('m, ('m, 'o, 's) ckpt, 'o, 's) run_state" where
  "end_of_epoch_single self fw epoch st =
     (let st1 = st\<lparr>scheduler := scheduler_step fw (scheduler st)\<rparr>;
          st2 = (if length (save_state self) > 0
                 then st1\<lparr>files := (files st1)(save_state self \<mapsto> save_dict_single self epoch st1)\<rparr>
                 else st1)
      in st2\<lparr>completed := completed st2 @ [epoch]\<rparr>)"

text \<open>The branch \<^verbatim>\<open>if self.save_best: ... else: self.save(self.save_path)\<close>, the same
  text in every loop; the scope is that of the loop it stands in.\<close>

definition save_best_step ::
  "'z train_attrs_scheme \<Rightarrow> (string \<times> real) list \<Rightarrow> int \<Rightarrow> ('m, 'c, 'y) run_common_scheme
     \<Rightarrow> error + ('m, 'c, 'y) run_common_scheme" where
  "save_best_step self scope epoch st =
     (if save_best self
      then ebind (local_avg scope ''test_loss_main'') (\<lambda>tm.
           ebind (local_avg scope ''test_loss_penalty'') (\<lambda>tp.
             let obj = tm + lamb self * tp in
             if snd (best_obj st) > obj
             then Inr (st\<lparr>best_obj := (epoch + 1, obj), saved_model := Some (model st)\<rparr>)
             else Inr st))
      else Inr (st\<lparr>saved_model := Some (model st)\<rparr>))"

text \<open>The body of the loop over the epochs in \<^verbatim>\<open>classifier_abstract.train\<close>: only
  \<^verbatim>\<open>train_loss_main\<close> and \<^verbatim>\<open>test_loss_main\<close> are bound.\<close>

definition classifier_epoch ::
  "'z train_attrs_scheme \<Rightarrow> ('m, 'o, 's) framework \<Rightarrow> int \<Rightarrow> ('m, ('m, 'o, 's) ckpt, 'o, 's) run_state
     \<Rightarrow> ('m, ('m, 'o, 's) ckpt, 'o, 's) run_state \<times> error option" where
  "classifier_epoch self fw epoch st0 =
     (let st = st0\<lparr>started := started st0 @ [epoch]\<rparr> in
      case train_pass fw epoch (model st) (optimizer st) of
        Inl e \<Rightarrow> (st, Some e)
      | Inr (m, opt, train_main, _) \<Rightarrow>
          let st1 = st\<lparr>model := m, optimizer := opt\<rparr> in
          case (if validate_batch self
                then ebind (validation_pass fw epoch m) (\<lambda>(test_main, _).
                       save_best_step self
                         [(''train_loss_main'', train_main), (''test_loss_main'', test_main)]
                         epoch st1)
                else Inr st1) of
            Inl e \<Rightarrow> (st1, Some e)
          | Inr st2 \<Rightarrow> (end_of_epoch_single self fw epoch st2, None))"

text \<open>The body of the loop over the epochs in \<^verbatim>\<open>VAE_abstract.train\<close>.\<close>

definition VAE_epoch ::
  "'z train_attrs_scheme \<Rightarrow> ('m, 'o, 's) framework \<Rightarrow> int \<Rightarrow> ('m, ('m, 'o, 's) ckpt, 'o, 's) run_state
     \<Rightarrow> ('m, ('m, 'o, 's) ckpt, 'o, 's) run_state \<times> error option" where
  "VAE_epoch self fw epoch st0 =
     (let st = st0\<lparr>started := started st0 @ [epoch]\<rparr> in
      case train_pass fw epoch (model st) (optimizer st) of
        Inl e \<Rightarrow> (st, Some e)
      | Inr (m, opt, train_main, train_penalty) \<Rightarrow>
          let st1 = st\<lparr>model := m, optimizer := opt\<rparr> in
          case (if validate_batch self
                then ebind (validation_pass fw epoch m) (\<lambda>(test_main, test_penalty).
                       save_best_step self
                         [(''train_loss_main'', train_main), (''train_loss_penalty'', train_penalty),
                          (''test_loss_main'', test_main), (''test_loss_penalty'', test_penalty)]
                         epoch st1)
                else Inr st1) of
            Inl e \<Rightarrow> (st1, Some e)
          | Inr st2 \<Rightarrow> (end_of_epoch_single self fw epoch st2, None))"

text \<open>A \<^verbatim>\<open>for\<close> loop: an error in a body ends the loop, and the state reached
  (the files written) stays.\<close>

fun for_each ::
  "('a \<Rightarrow> 'st \<Rightarrow> 'st \<times> error option) \<Rightarrow> 'a list \<Rightarrow> 'st \<Rightarrow> 'st \<times> error option" where
  "for_each body [] st = (st, None)"
| "for_each body (e # es) st =
     (case body e st of
        (st', Some err) \<Rightarrow> (st', Some err)
      | (st', None) \<Rightarrow> for_each body es st')"

text \<open>After the loop: \<^verbatim>\<open>if not self.validate_batch: self.save(self.save_path)\<close>.\<close>

definition after_epochs ::
  "'z train_attrs_scheme \<Rightarrow> ('m, 'c, 'y) run_common_scheme \<times> error option
     \<Rightarrow> ('m, 'c, 'y) run_common_scheme \<times> error option" where
  "after_epochs self r =
     (case r of
        (st, Some err) \<Rightarrow> (st, Some err)
      | (st, None) \<Rightarrow>
          (if \<not> validate_batch self then st\<lparr>saved_model := Some (model st)\<rparr> else st, None))"

definition classifier_train ::
  "'z train_attrs_scheme \<Rightarrow> ('m, 'o, 's) framework \<Rightarrow> bool \<Rightarrow> ('m, ('m, 'o, 's) ckpt, 'o, 's) run_state
     \<Rightarrow> ('m, ('m, 'o, 's) ckpt, 'o, 's) run_state \<times> error option" where
  "classifier_train self fw resume st0 =
     (let opt = new_optimizer fw (model st0);
          st = st0\<lparr>optimizer := opt, scheduler := new_scheduler fw opt\<rparr>
      in case (if resume then resume_single self st else Inr (0, st)) of
           Inl e \<Rightarrow> (st, Some e)
         | Inr (start_epoch, st1) \<Rightarrow>
             after_epochs self
               (for_each (classifier_epoch self fw) (py_range start_epoch (num_epoch self)) st1))"

text \<open>\<^verbatim>\<open>VAE_abstract.pretrain_encoder\<close> raises; a subclass may give its own, so
  \<^verbatim>\<open>train\<close> takes the method as a parameter.\<close>

definition VAE_pretrain_encoder ::
  "('m, ('m, 'o, 's) ckpt, 'o, 's) run_state \<Rightarrow> error + ('m, ('m, 'o, 's) ckpt, 'o, 's) run_state" where
  "VAE_pretrain_encoder st = Inl NotImplementedError"

definition VAE_train ::
  "'z train_attrs_scheme \<Rightarrow> ('m, 'o, 's) framework
     \<Rightarrow> (('m, ('m, 'o, 's) ckpt, 'o, 's) run_state \<Rightarrow> error + ('m, ('m, 'o, 's) ckpt, 'o, 's) run_state)
     \<Rightarrow> bool \<Rightarrow> ('m, ('m, 'o, 's) ckpt, 'o, 's) run_state
     \<Rightarrow> ('m, ('m, 'o, 's) ckpt, 'o, 's) run_state \<times> error option" where
  "VAE_train self fw pretrain_encoder resume st0 =
     (case (if encoder_pretrain self then pretrain_encoder st0 else Inr st0) of
        Inl e \<Rightarrow> (st0, Some e)
      | Inr stp \<Rightarrow>
         let opt = new_optimizer fw (model stp);
             st = stp\<lparr>optimizer := opt, scheduler := new_scheduler fw opt\<rparr>
         in case (if resume then resume_single self st else Inr (0, st)) of
              Inl e \<Rightarrow> (st, Some e)
            | Inr (start_epoch, st1) \<Rightarrow>
                after_epochs self
                  (for_each (VAE_epoch self fw) (py_range start_epoch (num_epoch self)) st1))"

subsection \<open>The loop with two optimizers: \<^verbatim>\<open>SSWAE_HSIC_dev.train\<close>\<close>

record sswae_attrs = train_attrs +
  lamb_mmd :: real
  lamb_hsic :: real
  latent_y_dim :: int

text \<open>A batch of the data loader, with the sample that \<^verbatim>\<open>generate_prior\<close> draws
  for it.\<close>

record 'x batch =
  data :: 'x
  condition :: tensor
  prior_z :: tensor

text \<open>
  The methods of \<^verbatim>\<open>self\<close> that the loop calls, as functions of the parameters
  \<open>'p\<close> of the networks; a subclass gives the networks. \<open>None\<close> is a forward pass
  that raises.
\<close>

record ('p, 'x) sswae_methods =
  encode :: "'p \<Rightarrow> 'x \<Rightarrow> tensor option"
  decode :: "'p \<Rightarrow> tensor \<Rightarrow> 'x option"
  main_loss :: "'x \<Rightarrow> 'x \<Rightarrow> real option"
  adv_loss :: "'p \<Rightarrow> tensor \<Rightarrow> tensor \<Rightarrow> real option"
  penalty_loss_mask :: "'p \<Rightarrow> tensor \<Rightarrow> tensor \<Rightarrow> bool list \<Rightarrow> (real \<times> real \<times> real) option"

text \<open>
  An objective is the loss as a function of the parameters: what \<^verbatim>\<open>backward\<close>
  differentiates. \<^verbatim>\<open>backward\<close> adds the gradient of its objective to the
  gradients kept with the parameters, \<^verbatim>\<open>zero_grad\<close> on a group of networks
  clears theirs, and \<^verbatim>\<open>step\<close> of an optimizer moves its parameters along the
  gradients kept with them. So the state keeps, for the encoder and decoder
  networks and for the discriminator networks, the objectives whose gradients
  have been added since the last \<^verbatim>\<open>zero_grad\<close>, and the trace records each step
  of an optimizer with the objectives it steps on.
\<close>

type_synonym 'p objective = "'p \<Rightarrow> real option"

datatype opt_id = Main | Adv

datatype phase = Pretrain | Train

datatype 'p event = Step phase opt_id "'p objective list"

record ('p, 'c, 'o, 's) adv_state = "('p, 'c) run_common" +
  optimizer_main :: 'o
  optimizer_adv :: 'o
  scheduler_main :: 's
  scheduler_adv :: 's
  grad_main :: "'p objective list"
  grad_adv :: "'p objective list"
  trace :: "'p event list"

record ('p, 'x, 'o, 's) adv_framework =
  new_optim :: "opt_id \<Rightarrow> 'p \<Rightarrow> 'o"
  new_sched :: "'o \<Rightarrow> 's"
  optim_step :: "phase \<Rightarrow> opt_id \<Rightarrow> 'p objective list \<Rightarrow> 'o \<Rightarrow> 'p \<Rightarrow> 'p \<times> 'o"
  sched_step :: "'s \<Rightarrow> 's"
  batches :: "phase \<Rightarrow> int \<Rightarrow> 'x batch list"
  validation :: "int \<Rightarrow> 'p \<Rightarrow> error + (real \<times> real \<times> real \<times> real)"

text \<open>\<^verbatim>\<open>obj_adv = self.lamb * self.adv_loss(prior_z, self.encode(x)[:, self.y_dim:])\<close>\<close>

definition obj_adv ::
  "'z sswae_attrs_scheme \<Rightarrow> ('p, 'x) sswae_methods \<Rightarrow> 'x batch \<Rightarrow> 'p objective" where
  "obj_adv self ms b = (\<lambda>\<theta>.
     do {
       q \<leftarrow> encode ms \<theta> (data b);
       let fake_latent = cols_from (latent_y_dim self) q;
       adv \<leftarrow> adv_loss ms \<theta> (prior_z b) fake_latent;
       Some (lamb self * adv)
     })"

text \<open>The objective of the main step: the reconstruction loss, and with a
  positive \<^verbatim>\<open>lamb\<close> the three penalties with their weights.\<close>

definition obj_main ::
  "'z sswae_attrs_scheme \<Rightarrow> ('p, 'x) sswae_methods \<Rightarrow> 'x batch \<Rightarrow> 'p objective" where
  "obj_main self ms b = (\<lambda>\<theta>.
     do {
       let x = data b;
       let y = condition b;
       let valid_y = map (\<lambda>r. sum_list r \<ge> 0.5) y;
       fake_latent \<leftarrow> encode ms \<theta> x;
       recon \<leftarrow> decode ms \<theta> fake_latent;
       loss \<leftarrow> main_loss ms x recon;
       if lamb self > 0
       then do {
         (gan, mmd, hsic) \<leftarrow> penalty_loss_mask ms \<theta> fake_latent y valid_y;
         Some (loss + lamb self * gan + lamb_mmd self * mmd + lamb_hsic self * hsic)
       }
       else Some loss
     })"

text \<open>Sequencing of steps that change the state: after an error the state stays
  as it is.\<close>

definition sbind :: "'st \<times> error option \<Rightarrow> ('st \<Rightarrow> 'st \<times> error option) \<Rightarrow> 'st \<times> error option" where
  "sbind r f = (case r of (st, Some e) \<Rightarrow> (st, Some e) | (st, None) \<Rightarrow> f st)"

text \<open>\<^verbatim>\<open>obj.backward()\<close>: the forward pass has to have a value.\<close>

definition backward ::
  "'p objective \<Rightarrow> ('p, 'c, 'o, 's) adv_state \<Rightarrow> ('p, 'c, 'o, 's) adv_state \<times> error option" where
  "backward obj st =
     (case obj (model st) of
        None \<Rightarrow> (st, Some RuntimeError)
      | Some _ \<Rightarrow> (st\<lparr>grad_main := grad_main st @ [obj], grad_adv := grad_adv st @ [obj]\<rparr>, None))"

definition step_adv ::
  "('p, 'x, 'o, 's) adv_framework \<Rightarrow> phase \<Rightarrow> ('p, 'c, 'o, 's) adv_state \<Rightarrow> ('p, 'c, 'o, 's) adv_state" where
  "step_adv fw ph st =
     (let (\<theta>, opt) = optim_step fw ph Adv (grad_adv st) (optimizer_adv st) (model st)
      in st\<lparr>model := \<theta>, optimizer_adv := opt, trace := trace st @ [Step ph Adv (grad_adv st)]\<rparr>)"

definition step_main ::
  "('p, 'x, 'o, 's) adv_framework \<Rightarrow> phase \<Rightarrow> ('p, 'c, 'o, 's) adv_state \<Rightarrow> ('p, 'c, 'o, 's) adv_state" where
  "step_main fw ph st =
     (let (\<theta>, opt) = optim_step fw ph Main (grad_main st) (optimizer_main st) (model st)
      in st\<lparr>model := \<theta>, optimizer_main := opt, trace := trace st @ [Step ph Main (grad_main st)]\<rparr>)"

text \<open>The body of the loop over the batches, the same text in \<^verbatim>\<open>pretrain_encoder\<close>
  and in \<^verbatim>\<open>train\<close>.\<close>

definition sswae_batch ::
  "'z sswae_attrs_scheme \<Rightarrow> ('p, 'x) sswae_methods \<Rightarrow> ('p, 'x, 'o, 's) adv_framework \<Rightarrow> phase
     \<Rightarrow> 'x batch \<Rightarrow> ('p, 'c, 'o, 's) adv_state \<Rightarrow> ('p, 'c, 'o, 's) adv_state \<times> error option" where
  "sswae_batch self ms fw ph b st =
     sbind (if lamb self > 0
            then sbind (backward (obj_adv self ms b) (st\<lparr>grad_adv := []\<rparr>))
                   (\<lambda>st1. (step_adv fw ph st1, None))
            else (st, None)) (\<lambda>st2.
     sbind (backward (obj_main self ms b) (st2\<lparr>grad_main := []\<rparr>)) (\<lambda>st3.
       (step_main fw ph st3, None)))"


text \<open>The dictionary built at the end of an epoch.\<close>

definition save_dict_adv ::
  "'z sswae_attrs_scheme \<Rightarrow> int \<Rightarrow> ('p, ('p, 'o, 's) ckpt, 'o, 's) adv_state \<Rightarrow> ('p, 'o, 's) ckpt" where
  "save_dict_adv self epoch st =
     (let save_dict = [(''epoch'', EpochV (epoch + 1)),
                       (''model_state_dict'', ModelV (model st)),
                       (''optimizer_main_state_dict'', OptimV (optimizer_main st)),
                       (''optimizer_adv_state_dict'', OptimV (optimizer_adv st))]
      in if length (lr_schedule self) > 0
         then save_dict @ [(''scheduler_main'', SchedV (scheduler_main st)),
                           (''scheduler_adv'', SchedV (scheduler_adv st))]
         else save_dict)"

definition end_of_epoch_adv ::
  "'z sswae_attrs_scheme \<Rightarrow> ('p, 'x, 'o, 's) adv_framework \<Rightarrow> int
     \<Rightarrow> ('p, ('p, 'o, 's) ckpt, 'o, 's) adv_state \<Rightarrow> ('p, ('p, 'o, 's) ckpt, 'o, 's) adv_state" where
  "end_of_epoch_adv self fw epoch st =
     (let st1 = st\<lparr>scheduler_main := sched_step fw (scheduler_main st)\<rparr>;
          st2 = (if lamb self > 0
                 then st1\<lparr>scheduler_adv := sched_step fw (scheduler_adv st1)\<rparr>
                 else st1);
          st3 = (if length (save_state self) > 0
                 then st2\<lparr>files := (files st2)(save_state self \<mapsto> save_dict_adv self epoch st2)\<rparr>
                 else st2)
      in st3\<lparr>completed := completed st3 @ [epoch]\<rparr>)"

text \<open>The body of the loop over the epochs. The branch on \<^verbatim>\<open>save_best\<close> reads the
  accumulators of the validation step.\<close>

definition sswae_epoch ::
  "'z sswae_attrs_scheme \<Rightarrow> ('p, 'x) sswae_methods \<Rightarrow> ('p, 'x, 'o, 's) adv_framework \<Rightarrow> int
     \<Rightarrow> ('p, ('p, 'o, 's) ckpt, 'o, 's) adv_state
     \<Rightarrow> ('p, ('p, 'o, 's) ckpt, 'o, 's) adv_state \<times> error option" where
  "sswae_epoch self ms fw epoch st0 =
     sbind (for_each (sswae_batch self ms fw Train) (batches fw Train epoch)
              (st0\<lparr>started := started st0 @ [epoch]\<rparr>)) (\<lambda>st1.
       case (if validate_batch self
             then ebind (validation fw epoch (model st1)) (\<lambda>(test_main, test_penalty, test_penalty2, test_penalty3).
                    save_best_step self
                      [(''test_loss_main'', test_main), (''test_loss_penalty'', test_penalty),
                       (''test_loss_penalty2'', test_penalty2), (''test_loss_penalty3'', test_penalty3)]
                      epoch st1)
             else Inr st1) of
         Inl e \<Rightarrow> (st1, Some e)
       | Inr st2 \<Rightarrow> (end_of_epoch_adv self fw epoch st2, None))"



section \<open>Example inputs\<close>

text \<open>A configuration, a framework that can interrupt the second epoch, and start
  states, on which the loops are run in the examples below.\<close>

definition ex_attrs :: train_attrs where
  "ex_attrs = \<lparr>num_epoch = 2, save_state = ''ckpt'', lr_schedule = ''step'', validate_batch = True,
     save_best = True, encoder_pretrain = False, encoder_pretrain_step = 0, lamb = 1\<rparr>"

definition ex_fw :: "bool \<Rightarrow> (unit, unit, unit) framework" where
  "ex_fw interrupted = \<lparr>new_optimizer = (\<lambda>_. ()), new_scheduler = (\<lambda>_. ()),
     train_pass = (\<lambda>e m opt. if interrupted \<and> e = 1 then Inl RuntimeError else Inr (m, opt, 0, 0)),
     validation_pass = (\<lambda>e m. Inr (0, 0)), scheduler_step = (\<lambda>s. s)\<rparr>"

definition ex_state :: "(unit, (unit, unit, unit) ckpt, unit, unit) run_state" where
  "ex_state = \<lparr>model = (), best_obj = (0, 1), saved_model = None, files = Map.empty,
     started = [], completed = [], optimizer = (), scheduler = ()\<rparr>"

definition ex_state1 :: "(unit, (unit, unit, unit) ckpt, unit, unit) run_state" where
  "ex_state1 = ex_state\<lparr>
        files := [''ckpt'' \<mapsto> [(''epoch'', EpochV 1), (''model_state_dict'', ModelV ()),
           (''optimizer_state_dict'', OptimV ()), (''scheduler'', SchedV ())]]\<rparr>"

definition ex_sswae_attrs :: sswae_attrs where
  "ex_sswae_attrs = \<lparr>num_epoch = 2, save_state = ''ckpt'', lr_schedule = ''step'', validate_batch = True,
     save_best = True, encoder_pretrain = True, encoder_pretrain_step = 1, lamb = 1,
     lamb_mmd = 2, lamb_hsic = 3, latent_y_dim = 1\<rparr>"

definition ex_methods :: "(unit, tensor) sswae_methods" where
  "ex_methods = \<lparr>encode = (\<lambda>\<theta> x. Some x), decode = (\<lambda>\<theta> z. Some z),
     main_loss = (\<lambda>x r. Some 1), adv_loss = (\<lambda>\<theta> p q. Some 1),
     penalty_loss_mask = (\<lambda>\<theta> q y v. Some (1, 1, 1))\<rparr>"

definition ex_batch :: "tensor batch" where
  "ex_batch = \<lparr>data = [[0, 1]], condition = [[1]], prior_z = [[0]]\<rparr>"

definition ex_adv_fw :: "(unit, tensor, unit, unit) adv_framework" where
  "ex_adv_fw = \<lparr>new_optim = (\<lambda>i \<theta>. ()), new_sched = (\<lambda>opt. ()),
     optim_step = (\<lambda>ph i objs opt \<theta>. (\<theta>, opt)), sched_step = (\<lambda>s. s),
     batches = (\<lambda>ph e. [ex_batch]), validation = (\<lambda>e \<theta>. Inr (0, 0, 0, 0))\<rparr>"

definition ex_adv_state :: "(unit, (unit, unit, unit) ckpt, unit, unit) adv_state" where
  "ex_adv_state = \<lparr>model = (), best_obj = (0, 1), saved_model = None, files = Map.empty,
     started = [], completed = [], optimizer_main = (), optimizer_adv = (),
     scheduler_main = (), scheduler_adv = (), grad_main = [], grad_adv = [], trace = []\<rparr>"

definition ex_builtins :: builtins where
  "ex_builtins = \<lparr>
     py_int = (\<lambda>s. if s = ''1'' then Some 1 else if s = ''2'' then Some 2
                    else if s = ''64'' then Some 64 else None),
     py_float = (\<lambda>s. if s = ''0.5'' then Some 0.5 else if s = ''1'' then Some 1 else None)\<rparr>"

definition ex_cfg :: config where
  "ex_cfg = [''train_info'' \<mapsto>
     [''labeled_class'' \<mapsto> ''1, 2'', ''lambda_mmd'' \<mapsto> ''1'', ''lambda_hsic'' \<mapsto> ''0.5'',
      ''batch_size'' \<mapsto> ''64'']]"

definition ex_section :: "string \<rightharpoonup> string" where
  "ex_section = [''labeled_class'' \<mapsto> ''1, 2'', ''lambda_mmd'' \<mapsto> ''1'', ''lambda_hsic'' \<mapsto> ''0.5'',
      ''batch_size'' \<mapsto> ''64'']"


section \<open>Properties of the tensor operations\<close>

lemma those_map_conv:
  "those (map f xs) = (if \<forall>x\<in>set xs. f x \<noteq> None then Some (map (\<lambda>x. the (f x)) xs) else None)"
  by (induction xs) (auto split: option.splits)


lemma sum_list_swap:
  "sum_list (map (\<lambda>v. sum_list (map (\<lambda>u. g u v) x)) y) = sum_list (map (\<lambda>u. sum_list (map (\<lambda>v. (g u v :: real)) y)) x)"
  by (induction y) (simp_all add: sum_list_addf)

lemma dist_table_conv:
  "dist_table x y =
    (if \<forall>v\<in>set y. \<forall>u\<in>set x. sq_dist u v \<noteq> None
     then Some (map (\<lambda>v. map (\<lambda>u. the (sq_dist u v)) x) y) else None)"
  unfolding dist_table_def those_map_conv
  by (auto intro!: map_cong)

lemma imq_conv:
  "imq C D =
    (if \<forall>r\<in>set D. \<forall>d\<in>set r. C + d \<noteq> 0
     then Some (map (map (\<lambda>d. C / (C + d))) D) else None)"
  unfolding imq_def those_map_conv pdiv_def
  by (auto intro!: map_cong)

lemma k_term_conv:
  "k_term C x y dg =
    (if k_ok C x y
     then Some ((\<Sum>v\<leftarrow>y. \<Sum>u\<leftarrow>x. ker C u v) -
       (if dg then 0 else (\<Sum>i\<leftarrow>[0..<min (length y) (length x)]. ker C (x ! i) (y ! i))))
     else None)"
proof (cases "k_ok C x y")
  case True
  then have d: "dist_table x y = Some (map (\<lambda>v. map (\<lambda>u. the (sq_dist u v)) x) y)"
    unfolding dist_table_conv k_ok_def by auto
  from True have i: "imq C (map (\<lambda>v. map (\<lambda>u. the (sq_dist u v)) x) y)
      = Some (map (\<lambda>v. map (\<lambda>u. ker C u v) x) y)"
    unfolding imq_conv k_ok_def ker_def by (auto simp: comp_def)
  have dg: "diag (length x) (map (\<lambda>v. map (\<lambda>u. ker C u v) x) y)
      = map (\<lambda>i. ker C (x ! i) (y ! i)) [0..<min (length y) (length x)]"
    unfolding diag_def by simp
  show ?thesis
    using True by (simp add: k_term_def d i dg tsum_def comp_def)
next
  case False
  show ?thesis
  proof (cases "\<forall>v\<in>set y. \<forall>u\<in>set x. sq_dist u v \<noteq> None")
    case True
    then have d: "dist_table x y = Some (map (\<lambda>v. map (\<lambda>u. the (sq_dist u v)) x) y)"
      unfolding dist_table_conv by auto
    from True False have i: "imq C (map (\<lambda>v. map (\<lambda>u. the (sq_dist u v)) x) y) = None"
      unfolding imq_conv k_ok_def by auto
    show ?thesis using False by (simp add: k_term_def d i)
  next
    case F: False
    then have d: "dist_table x y = None"
      unfolding dist_table_conv by auto
    show ?thesis using False by (simp add: k_term_def d)
  qed
qed




lemma WAE_MMD_k_fold:
  "WAE_MMD_k zd x y dg =
     foldl (\<lambda>acc scale. do { stat \<leftarrow> acc; t \<leftarrow> k_term (scale * 2 * of_int zd * 2) x y dg; Some (stat + t) })
       (Some 0) scales"
proof -
  have "(\<lambda>acc scale. do {
         stat \<leftarrow> acc;
         let C = scale * 2 * of_int zd * 2;
         D \<leftarrow> dist_table x y;
         kernel \<leftarrow> imq C D;
         if dg then Some (stat + tsum kernel)
         else Some (stat + (tsum kernel - sum_list (diag (length x) kernel)))
       }) = (\<lambda>acc scale. do { stat \<leftarrow> acc; t \<leftarrow> k_term (scale * 2 * of_int zd * 2) x y dg; Some (stat + t) })"
    by (auto simp: fun_eq_iff Let_def k_term_def split: Option.bind_split)
  then show ?thesis unfolding WAE_MMD_k_def by simp
qed










lemma sq_dist_wf:
  assumes "length u = length v"
  shows "sq_dist u v = Some (spec_sqnorm u v)"
  using assms unfolding sq_dist_def bcast_def spec_sqnorm_def
  by (simp add: case_prod_unfold comp_def)

lemma spec_sqnorm_nonneg: "0 \<le> spec_sqnorm u v"
  unfolding spec_sqnorm_def by (rule sum_list_nonneg) auto

lemma k_ok_wf:
  assumes "wf_tensor d x" "wf_tensor d y" "0 < C"
  shows "k_ok C x y"
  unfolding k_ok_def
proof (intro ballI)
  fix v u assume "v \<in> set y" "u \<in> set x"
  with assms have "length u = length v" unfolding wf_tensor_def by simp
  then have "sq_dist u v = Some (spec_sqnorm u v)" by (rule sq_dist_wf)
  moreover have "0 < C + spec_sqnorm u v"
    using spec_sqnorm_nonneg[of u v] assms(3) by linarith
  ultimately show "sq_dist u v \<noteq> None \<and> C + the (sq_dist u v) \<noteq> 0" by simp
qed

lemma sum_list_nth_conv:
  "sum_list (map f xs) = (\<Sum>i\<leftarrow>[0..<length xs]. (f (xs ! i) :: real))"
proof -
  have "map f xs = map (\<lambda>i. f (xs ! i)) [0..<length xs]"
    by (rule nth_equalityI) simp_all
  then show ?thesis by simp
qed

lemma sum_off_diag:
  "(\<Sum>i\<leftarrow>[0..<n]. \<Sum>j\<leftarrow>[0..<n]. if i \<noteq> j then a i j else (0::real))
     = (\<Sum>i\<leftarrow>[0..<n]. \<Sum>j\<leftarrow>[0..<n]. a i j) - (\<Sum>i\<leftarrow>[0..<n]. a i i)"
proof -
  have inner: "(\<Sum>j\<leftarrow>[0..<n]. if i \<noteq> j then a i j else 0) = (\<Sum>j\<leftarrow>[0..<n]. a i j) - a i i"
    if "i < n" for i
  proof -
    have "(\<Sum>j\<leftarrow>[0..<n]. if i \<noteq> j then a i j else 0)
        = (\<Sum>j\<leftarrow>[0..<n]. a i j - (if j = i then a i i else 0))"
      by (rule arg_cong[where f=sum_list], rule map_cong) auto
    also have "\<dots> = (\<Sum>j\<leftarrow>[0..<n]. a i j) - (\<Sum>j\<leftarrow>[0..<n]. if j = i then a i i else 0)"
      by (simp add: sum_list_subtractf)
    also have "(\<Sum>j\<leftarrow>[0..<n]. if j = i then a i i else 0) = a i i"
      using that by (simp add: interv_sum_list_conv_sum_set_nat)
    finally show ?thesis .
  qed
  have "(\<Sum>i\<leftarrow>[0..<n]. \<Sum>j\<leftarrow>[0..<n]. if i \<noteq> j then a i j else 0)
      = (\<Sum>i\<leftarrow>[0..<n]. (\<Sum>j\<leftarrow>[0..<n]. a i j) - a i i)"
    by (rule arg_cong[where f=sum_list], rule map_cong) (simp_all add: inner)
  then show ?thesis by (simp add: sum_list_subtractf)
qed

lemma ker_wf:
  assumes "wf_tensor d x" "wf_tensor d y" "i < length x" "j < length y"
  shows "ker C (x ! i) (y ! j) = C / (C + spec_sqnorm (x ! i) (y ! j))"
proof -
  from assms have "length (x ! i) = length (y ! j)"
    unfolding wf_tensor_def by simp
  then show ?thesis unfolding ker_def by (simp add: sq_dist_wf)
qed

lemma full_sum_spec:
  assumes "wf_tensor d x" "wf_tensor d y"
  shows "(\<Sum>v\<leftarrow>y. \<Sum>u\<leftarrow>x. ker C u v)
       = (\<Sum>i\<leftarrow>[0..<length x]. \<Sum>j\<leftarrow>[0..<length y]. C / (C + spec_sqnorm (x ! i) (y ! j)))"
proof -
  have "(\<Sum>v\<leftarrow>y. \<Sum>u\<leftarrow>x. ker C u v) = (\<Sum>u\<leftarrow>x. \<Sum>v\<leftarrow>y. ker C u v)"
    by (rule sum_list_swap)
  also have "\<dots> = (\<Sum>i\<leftarrow>[0..<length x]. \<Sum>v\<leftarrow>y. ker C (x ! i) v)"
    by (rule sum_list_nth_conv)
  also have "\<dots> = (\<Sum>i\<leftarrow>[0..<length x]. \<Sum>j\<leftarrow>[0..<length y]. ker C (x ! i) (y ! j))"
    by (rule arg_cong[where f=sum_list], rule map_cong) (simp_all add: sum_list_nth_conv[of _ y])
  also have "\<dots> = (\<Sum>i\<leftarrow>[0..<length x]. \<Sum>j\<leftarrow>[0..<length y]. C / (C + spec_sqnorm (x ! i) (y ! j)))"
    by (rule arg_cong[where f=sum_list], rule map_cong, simp,
        rule arg_cong[where f=sum_list], rule map_cong) (simp_all add: ker_wf[OF assms])
  finally show ?thesis .
qed

lemma k_term_spec:
  assumes "wf_tensor d x" "wf_tensor d y" "0 < C" "dg \<or> length x = length y"
  shows "k_term C x y dg = Some (spec_k_term C x y dg)"
proof (cases dg)
  case True
  then show ?thesis
    unfolding k_term_conv spec_k_term_def
    using k_ok_wf[OF assms(1-3)] full_sum_spec[OF assms(1,2), of C] by simp
next
  case False
  with assms(4) have len: "length y = length x" by simp
  have "(\<Sum>i\<leftarrow>[0..<length x]. ker C (x ! i) (y ! i))
      = (\<Sum>i\<leftarrow>[0..<length x]. C / (C + spec_sqnorm (x ! i) (y ! i)))"
    by (rule arg_cong[where f=sum_list], rule map_cong) (simp_all add: ker_wf[OF assms(1,2)] len)
  then show ?thesis
    unfolding k_term_conv spec_k_term_def
    using False k_ok_wf[OF assms(1-3)] full_sum_spec[OF assms(1,2), of C]
      sum_off_diag[where n="length x" and a="\<lambda>i j. C / (C + spec_sqnorm (x ! i) (y ! j))"]
    by (simp add: len)
qed

lemma foldl_k_some:
  assumes "\<And>s. s \<in> set ss \<Longrightarrow> f s = Some (g s)"
  shows "foldl (\<lambda>acc s. do { stat \<leftarrow> acc; t \<leftarrow> f s; Some (stat + t) }) (Some a) ss
       = Some (a + sum_list (map g ss) :: real)"
  using assms by (induction ss arbitrary: a) (simp_all add: add.assoc)

lemma scales_pos: "s \<in> set scales \<Longrightarrow> 0 < s"
  unfolding scales_def by auto

lemma WAE_MMD_k_spec:
  assumes "wf_tensor d x" "wf_tensor d y" "0 < zd" "dg \<or> length x = length y"
  shows "WAE_MMD_k zd x y dg = Some (spec_k zd x y dg)"
proof -
  have "k_term (s * 2 * of_int zd * 2) x y dg = Some (spec_k_term (s * 2 * of_int zd * 2) x y dg)"
    if "s \<in> set scales" for s
    using scales_pos[OF that] assms(3) by (intro k_term_spec[OF assms(1,2) _ assms(4)]) simp
  then have "WAE_MMD_k zd x y dg = Some (0 + (\<Sum>s\<leftarrow>scales. spec_k_term (s * 2 * of_int zd * 2) x y dg))"
    unfolding WAE_MMD_k_fold by (rule foldl_k_some)
  then show ?thesis unfolding spec_k_def spec_k_term_def Let_def by simp
qed












lemma dev2_k_eq: "SSWAE_HSIC_dev2_k self x y dg = SSWAE_HSIC_dev_k self x y dg"
  unfolding SSWAE_HSIC_dev2_k_def SSWAE_HSIC_dev_k_def ..

lemma dev2_bandwidth_eq: "SSWAE_HSIC_dev2_bandwidth self d = SSWAE_HSIC_dev_bandwidth self d"
  unfolding SSWAE_HSIC_dev2_bandwidth_def SSWAE_HSIC_dev_bandwidth_def ..

lemma dev2_knl_eq: "SSWAE_HSIC_dev2_knl x y gam = SSWAE_HSIC_dev_knl x y gam"
  unfolding SSWAE_HSIC_dev2_knl_def SSWAE_HSIC_dev_knl_def ..

lemma dev2_hsic_eq: "SSWAE_HSIC_dev2_hsic self x y = SSWAE_HSIC_dev_hsic self x y"
  unfolding SSWAE_HSIC_dev2_hsic_def SSWAE_HSIC_dev_hsic_def dev2_bandwidth_eq dev2_knl_eq ..








section \<open>Properties of the training loops\<close>

lemma save_dict_single_keys:
  "map fst (save_dict_single self epoch st) =
     [''epoch'', ''model_state_dict'', ''optimizer_state_dict'']
       @ (if lr_schedule self \<noteq> [] then [''scheduler''] else [])"
  unfolding save_dict_single_def by (simp add: Let_def)

lemma save_dict_adv_keys:
  "map fst (save_dict_adv self epoch st) =
     [''epoch'', ''model_state_dict'', ''optimizer_main_state_dict'', ''optimizer_adv_state_dict'']
       @ (if lr_schedule self \<noteq> [] then [''scheduler_main'', ''scheduler_adv''] else [])"
  unfolding save_dict_adv_def by (simp add: Let_def)

lemma end_of_epoch_single_files:
  "files (end_of_epoch_single self fw epoch st) =
     (if save_state self \<noteq> []
      then (files st)(save_state self \<mapsto>
             save_dict_single self epoch (st\<lparr>scheduler := scheduler_step fw (scheduler st)\<rparr>))
      else files st)"
  unfolding end_of_epoch_single_def by (simp add: Let_def)

lemma end_of_epoch_adv_files:
  "\<exists>st'. files (end_of_epoch_adv self fw epoch st) =
     (if save_state self \<noteq> []
      then (files st)(save_state self \<mapsto> save_dict_adv self epoch st')
      else files st)"
  unfolding end_of_epoch_adv_def by (auto simp: Let_def)

lemma save_best_step_files: "save_best_step self scope epoch st = Inr st' \<Longrightarrow> files st' = files st"
  unfolding save_best_step_def ebind_def
  by (auto simp: Let_def split: if_splits sum.splits)

lemma classifier_epoch_files:
  assumes "classifier_epoch self fw epoch st = (st', None)"
  shows "\<exists>s. files st' =
     (if save_state self \<noteq> []
      then (files st)(save_state self \<mapsto> save_dict_single self epoch s)
      else files st)"
  using assms unfolding classifier_epoch_def ebind_def
  by (auto simp: Let_def end_of_epoch_single_files dest!: save_best_step_files split: sum.splits prod.splits if_splits)

lemma py_range_Cons: "a < b \<Longrightarrow> py_range a b = a # py_range (a + 1) b"
  unfolding py_range_def by (simp add: upto_rec1)

lemma py_range_empty: "b \<le> a \<Longrightarrow> py_range a b = []"
  unfolding py_range_def by simp

lemma save_best_step_logs:
  "save_best_step self scope epoch st = Inr st' \<Longrightarrow>
     files st' = files st \<and> started st' = started st \<and> completed st' = completed st"
  unfolding save_best_step_def ebind_def
  by (auto simp: Let_def split: if_splits sum.splits)

lemma end_of_epoch_single_logs:
  "started (end_of_epoch_single self fw epoch st) = started st
   \<and> completed (end_of_epoch_single self fw epoch st) = completed st @ [epoch]"
  unfolding end_of_epoch_single_def by (simp add: Let_def)

lemma VAE_epoch_ok:
  assumes "VAE_epoch self fw e st = (st', None)"
  shows "started st' = started st @ [e] \<and> completed st' = completed st @ [e]
     \<and> (\<exists>s. files st' =
           (if save_state self \<noteq> []
            then (files st)(save_state self \<mapsto> save_dict_single self e s)
            else files st))"
  using assms unfolding VAE_epoch_def ebind_def
  by (auto simp: Let_def end_of_epoch_single_files end_of_epoch_single_logs
      dest!: save_best_step_logs split: sum.splits prod.splits if_splits)

lemma VAE_epoch_err:
  assumes "VAE_epoch self fw e st = (st', Some err)"
  shows "started st' = started st @ [e] \<and> completed st' = completed st \<and> files st' = files st"
  using assms unfolding VAE_epoch_def ebind_def
  by (auto simp: Let_def split: sum.splits prod.splits if_splits)

lemma py_range_snoc: "a \<le> c \<Longrightarrow> py_range a (c + 1) = py_range a c @ [c]"
  unfolding py_range_def by (simp add: upto_rec2)

lemma VAE_loop:
  assumes "for_each (VAE_epoch self fw) (py_range a b) st = (st', r)"
  shows "\<exists>c. a \<le> c \<and> (c \<le> b \<or> c = a)
     \<and> completed st' = completed st @ py_range a c
     \<and> started st' = started st @ py_range a (if r = None then c else c + 1)
     \<and> (r = None \<longrightarrow> b \<le> c) \<and> (r \<noteq> None \<longrightarrow> c < b)
     \<and> (c = a \<longrightarrow> files st' = files st)
     \<and> (a < c \<and> save_state self \<noteq> [] \<longrightarrow>
           (\<exists>s. files st' (save_state self) = Some (save_dict_single self (c - 1) s)))"
  using assms
proof (induction "nat (b - a)" arbitrary: a st)
  case 0
  then have e: "py_range a b = []" by (simp add: py_range_empty)
  with "0.prems" have "st' = st" "r = None" by simp_all
  then show ?case using 0 by (intro exI[of _ a]) (simp add: py_range_empty)
next
  case (Suc n)
  then have lt: "a < b" by simp
  then have rng: "py_range a b = a # py_range (a + 1) b" by (rule py_range_Cons)
  obtain s1 r1 where ep: "VAE_epoch self fw a st = (s1, r1)" by (cases "VAE_epoch self fw a st")
  show ?case
  proof (cases r1)
    case (Some err)
    with Suc.prems ep rng have "st' = s1" "r = Some err" by simp_all
    with VAE_epoch_err[OF ep[unfolded Some]] lt show ?thesis
      by (intro exI[of _ a]) (simp add: py_range_empty py_range_Cons)
  next
    case None
    with Suc.prems ep rng have rest: "for_each (VAE_epoch self fw) (py_range (a + 1) b) s1 = (st', r)"
      by simp
    have "n = nat (b - (a + 1))" using Suc.hyps(2) by simp
    from Suc.hyps(1)[OF this rest] obtain c where c:
      "a + 1 \<le> c" "c \<le> b \<or> c = a + 1"
      "completed st' = completed s1 @ py_range (a + 1) c"
      "started st' = started s1 @ py_range (a + 1) (if r = None then c else c + 1)"
      "r = None \<longrightarrow> b \<le> c" "r \<noteq> None \<longrightarrow> c < b"
      "c = a + 1 \<longrightarrow> files st' = files s1"
      "a + 1 < c \<and> save_state self \<noteq> [] \<longrightarrow>
           (\<exists>s. files st' (save_state self) = Some (save_dict_single self (c - 1) s))"
      by blast
    from VAE_epoch_ok[OF ep[unfolded None]] obtain s where s1:
      "started s1 = started st @ [a]" "completed s1 = completed st @ [a]"
      "files s1 = (if save_state self \<noteq> []
            then (files st)(save_state self \<mapsto> save_dict_single self a s) else files st)"
      by blast
    have f: "\<exists>s. files st' (save_state self) = Some (save_dict_single self (c - 1) s)"
      if "save_state self \<noteq> []"
    proof (cases "c = a + 1")
      case True
      with c(7) s1(3) that show ?thesis by auto
    next
      case False
      with c(1,8) that show ?thesis by simp
    qed
    show ?thesis
      using c(1,2,5,6) lt f
      by (intro exI[of _ c]) (auto simp: c(3,4) s1(1,2) py_range_Cons[of a])
  qed
qed

lemma after_epochs_same:
  "after_epochs self (st, r) = (st', r') \<Longrightarrow>
     r' = r \<and> files st' = files st \<and> started st' = started st \<and> completed st' = completed st"
  unfolding after_epochs_def by (auto split: option.splits if_splits)

lemma resume_single_saved:
  assumes "files st (save_state self) = Some (save_dict_single self e s)"
  shows "\<exists>st'. resume_single self st = Inr (e + 1, st') \<and> files st' = files st
     \<and> started st' = started st \<and> completed st' = completed st"
  using assms
  unfolding resume_single_def save_dict_single_def torch_load_def ebind_def
    ckpt_epoch_def ckpt_model_def ckpt_optim_def ckpt_sched_def
  by (simp add: Let_def)

lemma py_range_append: "a \<le> m \<Longrightarrow> m \<le> c \<Longrightarrow> py_range a m @ py_range m c = py_range a c"
  unfolding py_range_def using upto_split2[of a "m - 1" "c - 1"]
  by (cases "a = m") auto

lemma py_range_set: "set (py_range a b) = {a..<b}"
  unfolding py_range_def by auto

lemma py_range_distinct: "distinct (py_range a b)"
  unfolding py_range_def by simp

lemma py_range_eq_Nil: "py_range a b = [] \<longleftrightarrow> b \<le> a"
  unfolding py_range_def by auto

lemma VAE_train_fresh:
  assumes pre: "\<And>s s'. pre s = Inr s' \<Longrightarrow>
        files s' = files s \<and> started s' = started s \<and> completed s' = completed s"
    and run: "VAE_train self fw pre False st0 = (st1, r1)"
  shows "\<exists>c. 0 \<le> c \<and> (c \<le> num_epoch self \<or> c = 0)
     \<and> completed st1 = completed st0 @ py_range 0 c
     \<and> (0 < c \<and> save_state self \<noteq> [] \<longrightarrow>
           (\<exists>s. files st1 (save_state self) = Some (save_dict_single self (c - 1) s)))"
proof (cases "if encoder_pretrain self then pre st0 else Inr st0")
  case (Inl e)
  with run have "st1 = st0" unfolding VAE_train_def by simp
  then show ?thesis by (intro exI[of _ 0]) (simp add: py_range_empty)
next
  case (Inr stp)
  then have stp: "files stp = files st0" "started stp = started st0" "completed stp = completed st0"
    using pre[of st0 stp] by (auto split: if_splits)
  define st where "st = stp\<lparr>optimizer := new_optimizer fw (model stp),
      scheduler := new_scheduler fw (new_optimizer fw (model stp))\<rparr>"
  obtain sl rl where loop: "for_each (VAE_epoch self fw) (py_range 0 (num_epoch self)) st = (sl, rl)"
    by (cases "for_each (VAE_epoch self fw) (py_range 0 (num_epoch self)) st")
  from run Inr have "after_epochs self (sl, rl) = (st1, r1)"
    unfolding VAE_train_def by (simp add: Let_def st_def[symmetric] loop)
  from after_epochs_same[OF this]
  have same: "completed st1 = completed sl" "files st1 = files sl" by simp_all
  from VAE_loop[OF loop] obtain c where c: "0 \<le> c" "c \<le> num_epoch self \<or> c = 0"
     "completed sl = completed st @ py_range 0 c"
     "0 < c \<and> save_state self \<noteq> [] \<longrightarrow>
           (\<exists>s. files sl (save_state self) = Some (save_dict_single self (c - 1) s))"
    by blast
  have "completed st = completed st0" unfolding st_def using stp by simp
  with c same show ?thesis by (intro exI[of _ c]) simp
qed

lemma VAE_train_resume:
  assumes pre: "\<And>s s'. pre s = Inr s' \<Longrightarrow>
        files s' = files s \<and> started s' = started s \<and> completed s' = completed s"
    and ckf: "files st0 (save_state self) = Some (save_dict_single self e s)"
    and run: "VAE_train self fw pre True st0 = (st2, r2)"
  shows "\<exists>c. e + 1 \<le> c \<and> (c \<le> num_epoch self \<or> c = e + 1)
     \<and> completed st2 = completed st0 @ py_range (e + 1) c
     \<and> (started st2 = started st0 @ py_range (e + 1) c
          \<or> c < num_epoch self \<and> started st2 = started st0 @ py_range (e + 1) (c + 1))
     \<and> (r2 = None \<longrightarrow> num_epoch self \<le> c \<and> started st2 = started st0 @ py_range (e + 1) c)"
proof (cases "if encoder_pretrain self then pre st0 else Inr st0")
  case (Inl err)
  with run have "st2 = st0" "r2 = Some err" unfolding VAE_train_def by simp_all
  then show ?thesis by (intro exI[of _ "e + 1"]) (simp add: py_range_empty)
next
  case (Inr stp)
  then have stp: "files stp = files st0" "started stp = started st0" "completed stp = completed st0"
    using pre[of st0 stp] by (auto split: if_splits)
  define st where "st = stp\<lparr>optimizer := new_optimizer fw (model stp),
      scheduler := new_scheduler fw (new_optimizer fw (model stp))\<rparr>"
  have "files st (save_state self) = Some (save_dict_single self e s)"
    unfolding st_def using stp ckf by simp
  from resume_single_saved[OF this] obtain sr where sr:
    "resume_single self st = Inr (e + 1, sr)" "files sr = files st"
    "started sr = started st" "completed sr = completed st"
    by blast
  obtain sl rl where loop: "for_each (VAE_epoch self fw) (py_range (e + 1) (num_epoch self)) sr = (sl, rl)"
    by (cases "for_each (VAE_epoch self fw) (py_range (e + 1) (num_epoch self)) sr")
  from run Inr have "after_epochs self (sl, rl) = (st2, r2)"
    unfolding VAE_train_def by (simp add: Let_def st_def[symmetric] sr(1) loop)
  from after_epochs_same[OF this]
  have same: "r2 = rl" "completed st2 = completed sl" "started st2 = started sl" by simp_all
  from VAE_loop[OF loop] obtain c where c: "e + 1 \<le> c" "c \<le> num_epoch self \<or> c = e + 1"
     "completed sl = completed sr @ py_range (e + 1) c"
     "started sl = started sr @ py_range (e + 1) (if rl = None then c else c + 1)"
     "rl = None \<longrightarrow> num_epoch self \<le> c" "rl \<noteq> None \<longrightarrow> c < num_epoch self"
    by blast
  have "completed sr = completed st0" "started sr = started st0"
    using sr stp unfolding st_def by simp_all
  with c same show ?thesis by (intro exI[of _ c]) auto
qed

lemma save_dict_single_epoch:
  "map_of (save_dict_single self e s) ''epoch'' = Some (EpochV (e + 1))"
  unfolding save_dict_single_def by (simp add: Let_def)

lemma ex_run1:
  "VAE_train ex_attrs (ex_fw True) VAE_pretrain_encoder False ex_state =
     (ex_state\<lparr>best_obj := (1, 0), saved_model := Some (),
        files := [''ckpt'' \<mapsto> [(''epoch'', EpochV 1), (''model_state_dict'', ModelV ()),
           (''optimizer_state_dict'', OptimV ()), (''scheduler'', SchedV ())]],
        started := [0, 1], completed := [0]\<rparr>, Some RuntimeError)"
  unfolding VAE_train_def ex_attrs_def ex_fw_def ex_state_def
  by (simp add: py_range_def upto_rec1 VAE_epoch_def ebind_def save_best_step_def local_avg_def
      end_of_epoch_single_def save_dict_single_def after_epochs_def Let_def)

lemma ex_run2:
  "VAE_train ex_attrs (ex_fw False) VAE_pretrain_encoder True ex_state1 =
     (ex_state\<lparr>best_obj := (2, 0), saved_model := Some (),
        files := [''ckpt'' \<mapsto> [(''epoch'', EpochV 2), (''model_state_dict'', ModelV ()),
           (''optimizer_state_dict'', OptimV ()), (''scheduler'', SchedV ())]],
        started := [1], completed := [1]\<rparr>, None)"
  unfolding VAE_train_def ex_attrs_def ex_fw_def ex_state_def ex_state1_def
  by (simp add: py_range_def upto_rec1 VAE_epoch_def ebind_def save_best_step_def local_avg_def
      end_of_epoch_single_def save_dict_single_def after_epochs_def Let_def resume_single_def
      torch_load_def ckpt_epoch_def ckpt_model_def ckpt_optim_def ckpt_sched_def)

lemma classifier_epoch_ckpt:
  assumes "classifier_epoch self fw e st = (st', None)" "save_state self \<noteq> []"
  shows "\<exists>s. files st' (save_state self) = Some (save_dict_single self e s)"
  using classifier_epoch_files[OF assms(1)] assms(2) by auto

lemma VAE_epoch_ckpt:
  assumes "VAE_epoch self fw e st = (st', None)" "save_state self \<noteq> []"
  shows "\<exists>s. files st' (save_state self) = Some (save_dict_single self e s)"
  using VAE_epoch_ok[OF assms(1)] assms(2) by auto

lemma sswae_epoch_ckpt:
  assumes "sswae_epoch self ms fw e st = (st', None)" "save_state self \<noteq> []"
  shows "\<exists>s. files st' (save_state self) = Some (save_dict_adv self e s)"
proof -
  from assms(1) obtain s2 where "st' = end_of_epoch_adv self fw e s2"
    unfolding sswae_epoch_def sbind_def
    by (auto split: prod.splits option.splits sum.splits if_splits)
  with end_of_epoch_adv_files[of self fw e s2] assms(2) show ?thesis by auto
qed

lemma ex_classifier_epoch:
  "snd (classifier_epoch (ex_attrs\<lparr>save_best := False\<rparr>) (ex_fw False) 0 ex_state) = None"
  unfolding classifier_epoch_def ex_attrs_def ex_fw_def ex_state_def
  by (simp add: ebind_def save_best_step_def Let_def)

lemma ex_VAE_epoch:
  "snd (VAE_epoch ex_attrs (ex_fw False) 0 ex_state) = None"
  unfolding VAE_epoch_def ex_attrs_def ex_fw_def ex_state_def
  by (simp add: ebind_def save_best_step_def local_avg_def Let_def)

lemma ex_sswae_epoch:
  "snd (sswae_epoch ex_sswae_attrs ex_methods ex_adv_fw 0 ex_adv_state) = None"
  unfolding sswae_epoch_def ex_sswae_attrs_def ex_methods_def ex_adv_fw_def ex_adv_state_def ex_batch_def
  by (simp add: sbind_def ebind_def save_best_step_def local_avg_def Let_def sswae_batch_def
      backward_def obj_adv_def obj_main_def step_adv_def step_main_def)

lemma classifier_epoch_name_error:
  assumes "validate_batch self" "save_best self"
    and "train_pass fw e (model st) (optimizer st) = Inr (m, opt, tm, tp)"
    and "validation_pass fw e m = Inr v"
  shows "snd (classifier_epoch self fw e st) = Some NameError"
  using assms unfolding classifier_epoch_def
  by (simp add: ebind_def save_best_step_def local_avg_def Let_def split: prod.splits)

lemma cfg_get_other:
  assumes "cfg ''train_info'' = Some ti" "k \<noteq> k'"
  shows "cfg_get (cfg(''train_info'' \<mapsto> ti(k' \<mapsto> v))) ''train_info'' k = cfg_get cfg ''train_info'' k"
  using assms unfolding cfg_get_def by simp

lemma cfg_get_absent:
  assumes "cfg ''train_info'' = Some ti" "ti k = None"
  shows "cfg_get cfg ''train_info'' k = Inl KeyError"
  using assms unfolding cfg_get_def by simp

lemma classifier_init_absent_portion:
  assumes "cfg ''train_info'' = Some ti" "ti ''portion'' = None"
    and "super_init (cfg(''train_info'' \<mapsto> ti(''portion'' \<mapsto> v))) = super_init cfg"
    and "classifier_abstract_init b super_init (cfg(''train_info'' \<mapsto> ti(''portion'' \<mapsto> v))) = Inr obj"
  shows "classifier_abstract_init b super_init cfg = Inr (obj\<lparr>portion := 1.0\<rparr>)"
proof -
  have lc: "cfg_get (cfg(''train_info'' \<mapsto> ti(''portion'' \<mapsto> v))) ''train_info'' ''labeled_class''
      = cfg_get cfg ''train_info'' ''labeled_class''"
    using assms(1) by (simp add: cfg_get_def)
  have p: "cfg_get cfg ''train_info'' ''portion'' = Inl KeyError"
    using assms(1,2) by (simp add: cfg_get_def)
  show ?thesis
    using assms(4) unfolding classifier_abstract_init_def assms(3) lc p
    by (auto simp: ebind_def split: sum.splits error.splits)
qed

lemma dev2_init_absent_test_class:
  assumes "cfg ''train_info'' = Some ti" "ti ''test_class'' = None"
    and "super_init (cfg(''train_info'' \<mapsto> ti(''test_class'' \<mapsto> v))) = super_init cfg"
    and "SSWAE_HSIC_dev2_init b super_init (cfg(''train_info'' \<mapsto> ti(''test_class'' \<mapsto> v))) = Inr obj"
  shows "SSWAE_HSIC_dev2_init b super_init cfg = Inr (obj\<lparr>test_class := []\<rparr>)"
proof -
  have o: "cfg_get (cfg(''train_info'' \<mapsto> ti(''test_class'' \<mapsto> v))) ''train_info'' k
      = cfg_get cfg ''train_info'' k" if "k \<noteq> ''test_class''" for k
    using that assms(1) by (simp add: cfg_get_def)
  have p: "cfg_get cfg ''train_info'' ''test_class'' = Inl KeyError"
    using assms(1,2) by (simp add: cfg_get_def)
  show ?thesis
    using assms(4) unfolding SSWAE_HSIC_dev2_init_def assms(3) p
    by (simp add: o ebind_def split: sum.splits) auto
qed

lemma ex_split: "split_comma (remove_spaces ''1, 2'') = [''1'', ''2'']"
  by (simp add: remove_spaces_def)

lemma ex_classifier_init:
  "classifier_abstract_init ex_builtins (\<lambda>c. Inr ()) (ex_cfg(''train_info'' \<mapsto> ex_section(''portion'' \<mapsto> ''0.5'')))
     = Inr \<lparr>base = (), loss = CrossEntropyLoss, labeled_class = [1, 2], portion = 0.5\<rparr>"
  unfolding classifier_abstract_init_def ex_cfg_def ex_section_def ex_builtins_def
  by (simp add: ebind_def cfg_get_def int_list_def to_float_def ex_split)

lemma ex_dev2_init:
  "SSWAE_HSIC_dev2_init ex_builtins (\<lambda>c. Inr ())
       (ex_cfg(''train_info'' \<mapsto> ex_section(''portion'' \<mapsto> ''0.5'', ''test_class'' \<mapsto> ''2'')))
     = Inr \<lparr>base2 = (), loss2 = MSELoss, disc_loss2 = BCEWithLogitsLoss, f1 = Identity,
            lamb_mmd2 = 1, lamb_hsic2 = 0.5, labeled_class2 = [1, 2], test_class = [2],
            portion2 = 0.5, batch_size = 64\<rparr>"
  unfolding SSWAE_HSIC_dev2_init_def ex_cfg_def ex_section_def ex_builtins_def
  by (simp add: ebind_def cfg_get_def int_list_def to_float_def to_int_def ex_split remove_spaces_def)



















section \<open>The MMD penalty\<close>

text \<open>
  Claim C3. For two batches \<open>x\<close> and \<open>y\<close> of \<open>n \<ge> 2\<close> rows each, with rows of one
  length, and a positive \<^verbatim>\<open>z_dim\<close>, \<^verbatim>\<open>WAE_MMD_abstract.penalty_loss(x, y, n)\<close> has a
  value, and it is \<open>(k(x,x,False) + k(y,y,False)) / (n*(n-1)) - 2*k(x,y,True) / (n*n)\<close>
  for the kernel statistic \<open>k\<close> of the specification: the sum over the seven
  scales of \<open>C / (C + \<parallel>a\<^sub>i - b\<^sub>j\<parallel>\<^sup>2)\<close>, \<open>C = scale * 2 * z_dim * 2\<close>, over all
  entries when the flag is \<open>True\<close> and over the entries off the diagonal when
  it is \<open>False\<close>.
\<close>

theorem C3_mmd_penalty:
  assumes "wf_tensor d x" "wf_tensor d y" "length x = n" "length y = n" "2 \<le> n" "0 < z_dim"
  shows "WAE_MMD_penalty_loss z_dim x y (int n) = Some (spec_mmd z_dim x y n)"
proof -
  have xx: "WAE_MMD_k z_dim x x False = Some (spec_k z_dim x x False)"
    by (rule WAE_MMD_k_spec[OF assms(1) assms(1) assms(6)]) simp
  have yy: "WAE_MMD_k z_dim y y False = Some (spec_k z_dim y y False)"
    by (rule WAE_MMD_k_spec[OF assms(2) assms(2) assms(6)]) simp
  have xy: "WAE_MMD_k z_dim x y True = Some (spec_k z_dim x y True)"
    by (rule WAE_MMD_k_spec[OF assms(1) assms(2) assms(6)]) simp
  have n1: "real_of_int (int n * (int n - 1)) = real n * (real n - 1)"
    by simp
  have n2: "real_of_int (int n * int n) = real n * real n"
    by simp
  have nz: "real n * (real n - 1) \<noteq> 0" "real n * real n \<noteq> 0"
    using assms(5) by auto
  show ?thesis
    unfolding WAE_MMD_penalty_loss_def xx yy xy n1 n2 spec_mmd_def pdiv_def
    using nz by simp
qed

theorem C3_mmd_penalty_witness:
  "wf_tensor 1 [[0], [1]] \<and> wf_tensor 1 [[1], [3]] \<and> length [[0], [1 :: real]] = 2
   \<and> length [[1], [3 :: real]] = 2 \<and> (2 :: nat) \<le> 2 \<and> (0 :: int) < 1
   \<and> WAE_MMD_penalty_loss 1 [[0], [1]] [[1], [3]] (int 2) = Some (spec_mmd 1 [[0], [1]] [[1], [3]] 2)"
  using C3_mmd_penalty[of 1 "[[0], [1]]" "[[1], [3]]" 2 1]
  by (simp add: wf_tensor_def)

section \<open>Duplicated loss code\<close>

text \<open>
  Claim C7. For the same \<^verbatim>\<open>z_dim\<close> and the same inputs, \<^verbatim>\<open>WAE_MMD_abstract.k\<close> and
  \<^verbatim>\<open>CWAE_MMD_abstract.k\<close> give the same result, and so do the two
  \<^verbatim>\<open>penalty_loss\<close>; for the same \<^verbatim>\<open>y_dim\<close>, discriminator and \<^verbatim>\<open>disc_loss\<close>,
  \<^verbatim>\<open>SSWAE_HSIC_dev.penalty_loss(q, prior_y, n)\<close> and
  \<^verbatim>\<open>SSWAE_HSIC_dev2.penalty_loss(q, prior_y, n)\<close> give the same triple
  \<open>(gan, mmd, hsic)\<close>, or fail together.
\<close>

theorem C7_duplicated_losses:
  "WAE_MMD_k z_dim x y dg = CWAE_MMD_k z_dim x y dg
   \<and> WAE_MMD_penalty_loss z_dim x y n = CWAE_MMD_penalty_loss z_dim x y n
   \<and> SSWAE_HSIC_dev_penalty_loss self q prior_y n = SSWAE_HSIC_dev2_penalty_loss self q prior_y n"
proof (intro conjI)
  show k: "WAE_MMD_k z_dim x y dg = CWAE_MMD_k z_dim x y dg" for x y dg
    unfolding WAE_MMD_k_def CWAE_MMD_k_def ..
  show "WAE_MMD_penalty_loss z_dim x y n = CWAE_MMD_penalty_loss z_dim x y n"
    unfolding WAE_MMD_penalty_loss_def CWAE_MMD_penalty_loss_def k ..
  show "SSWAE_HSIC_dev_penalty_loss self q prior_y n = SSWAE_HSIC_dev2_penalty_loss self q prior_y n"
    unfolding SSWAE_HSIC_dev_penalty_loss_def SSWAE_HSIC_dev2_penalty_loss_def
      dev2_k_eq dev2_hsic_eq Let_def ..
qed

section \<open>Symmetry of the kernel statistics\<close>


section \<open>The KL penalty of the VAE\<close>



section \<open>The clamp in the HSIC statistic\<close>



section \<open>Checkpoints and resuming\<close>

text \<open>
  Claim C1. Take a run of \<^verbatim>\<open>VAE_abstract.train\<close> with a non-empty \<^verbatim>\<open>save_state\<close>
  path that starts afresh and completes at least one epoch before it ends or is
  interrupted, and a second run, \<^verbatim>\<open>train(resume=True)\<close>, on the files the first
  one left. Then the first run has completed the epochs \<open>0, \<dots>, e\<close> for some
  \<open>e\<close>, and the checkpoint it left stores \<open>e + 1\<close> under \<^verbatim>\<open>"epoch"\<close>; the second
  run enters the epochs from \<open>e + 1\<close> on, in order, up to \<open>num_epoch - 1\<close> when it
  is not interrupted; no epoch is completed twice, no completed epoch is
  entered again, and every epoch run is in \<open>[0, num_epoch)\<close>. A
  \<^verbatim>\<open>pretrain_encoder\<close> of a subclass is taken to leave the files alone.
\<close>

theorem C1_resume_round_trip:
  assumes nonempty: "save_state self \<noteq> []"
    and pre: "\<And>s s'. pretrain_encoder s = Inr s' \<Longrightarrow>
        files s' = files s \<and> started s' = started s \<and> completed s' = completed s"
    and run1: "VAE_train self fw1 pretrain_encoder False st0 = (st1, r1)"
    and fresh: "started st0 = []" "completed st0 = []"
    and some: "completed st1 \<noteq> []"
    and again: "files st1' = files st1" "started st1' = []" "completed st1' = []"
    and run2: "VAE_train self fw2 pretrain_encoder True st1' = (st2, r2)"
  shows "\<exists>e d c. 0 \<le> e \<and> e < num_epoch self \<and> completed st1 = py_range 0 (e + 1)
     \<and> files st1 (save_state self) = Some d \<and> map_of d ''epoch'' = Some (EpochV (e + 1))
     \<and> e + 1 \<le> c \<and> c \<le> num_epoch self \<and> completed st2 = py_range (e + 1) c
     \<and> (started st2 = py_range (e + 1) c \<or> c < num_epoch self \<and> started st2 = py_range (e + 1) (c + 1))
     \<and> (r2 = None \<longrightarrow> started st2 = py_range (e + 1) (num_epoch self)
                       \<and> completed st1 @ completed st2 = py_range 0 (num_epoch self))
     \<and> distinct (completed st1 @ completed st2)
     \<and> set (completed st1) \<inter> set (started st2) = {}
     \<and> set (completed st1 @ started st2) \<subseteq> {0..<num_epoch self}"
proof -
  from VAE_train_fresh[OF pre run1] fresh obtain c1 where c1:
    "0 \<le> c1" "c1 \<le> num_epoch self \<or> c1 = 0" "completed st1 = py_range 0 c1"
    "0 < c1 \<and> save_state self \<noteq> [] \<longrightarrow>
           (\<exists>s. files st1 (save_state self) = Some (save_dict_single self (c1 - 1) s))"
    by auto
  from some c1(1,3) have pos: "0 < c1" by (cases "c1 = 0") (simp_all add: py_range_empty)
  with c1(2) have le: "c1 \<le> num_epoch self" by simp
  define e where "e = c1 - 1"
  have e: "0 \<le> e" "e < num_epoch self" "c1 = e + 1" using pos le unfolding e_def by simp_all
  from c1(4) pos nonempty obtain s where s: "files st1 (save_state self) = Some (save_dict_single self e s)"
    unfolding e_def by blast
  then have "files st1' (save_state self) = Some (save_dict_single self e s)"
    using again(1) by simp
  from VAE_train_resume[OF pre this run2] again(2,3) obtain c where c:
    "e + 1 \<le> c" "c \<le> num_epoch self \<or> c = e + 1" "completed st2 = py_range (e + 1) c"
    "started st2 = py_range (e + 1) c \<or> c < num_epoch self \<and> started st2 = py_range (e + 1) (c + 1)"
    "r2 = None \<longrightarrow> num_epoch self \<le> c \<and> started st2 = py_range (e + 1) c"
    by auto
  have cle: "c \<le> num_epoch self" using c(2) e(2) by auto
  have app: "completed st1 @ completed st2 = py_range 0 c"
    unfolding c1(3) c(3) e(3) using e(1) c(1) by (intro py_range_append) simp_all
  have fin: "started st2 = py_range (e + 1) (num_epoch self)
       \<and> completed st1 @ completed st2 = py_range 0 (num_epoch self)" if "r2 = None"
  proof -
    from that c(5) cle have "c = num_epoch self" "started st2 = py_range (e + 1) c" by simp_all
    then show ?thesis using app by simp
  qed
  have disj: "set (completed st1) \<inter> set (started st2) = {}"
    using c(4) unfolding c1(3) e(3) by (auto simp: py_range_set)
  have sub: "set (completed st1 @ started st2) \<subseteq> {0..<num_epoch self}"
    using c(4) cle e unfolding c1(3) e(3) by (auto simp: py_range_set)
  have dist: "distinct (completed st1 @ completed st2)"
    unfolding app by (rule py_range_distinct)
  have c1e: "completed st1 = py_range 0 (e + 1)"
    using c1(3) e(3) by simp
  have ep: "map_of (save_dict_single self e s) ''epoch'' = Some (EpochV (e + 1))"
    by (rule save_dict_single_epoch)
  have fin': "r2 = None \<longrightarrow> started st2 = py_range (e + 1) (num_epoch self)
                       \<and> completed st1 @ completed st2 = py_range 0 (num_epoch self)"
    using fin by blast
  show ?thesis
    apply (rule exI[of _ e])
    apply (rule exI[of _ "save_dict_single self e s"])
    apply (rule exI[of _ c])
    apply (intro conjI)
                apply (rule e(1))
               apply (rule e(2))
              apply (rule c1e)
             apply (rule s)
            apply (rule ep)
           apply (rule c(1))
          apply (rule cle)
         apply (rule c(3))
        apply (rule c(4))
       apply (rule fin')
      apply (rule dist)
     apply (rule disj)
    apply (rule sub)
    done
qed

theorem C1_resume_round_trip_witness:
  "save_state ex_attrs \<noteq> []
   \<and> snd (VAE_train ex_attrs (ex_fw True) VAE_pretrain_encoder False ex_state) = Some RuntimeError
   \<and> completed (fst (VAE_train ex_attrs (ex_fw True) VAE_pretrain_encoder False ex_state)) = [0]
   \<and> files ex_state1 = files (fst (VAE_train ex_attrs (ex_fw True) VAE_pretrain_encoder False ex_state))
   \<and> snd (VAE_train ex_attrs (ex_fw False) VAE_pretrain_encoder True ex_state1) = None
   \<and> (\<exists>e d. completed (fst (VAE_train ex_attrs (ex_fw True) VAE_pretrain_encoder False ex_state)) = py_range 0 (e + 1)
     \<and> files (fst (VAE_train ex_attrs (ex_fw True) VAE_pretrain_encoder False ex_state)) (save_state ex_attrs) = Some d
     \<and> map_of d ''epoch'' = Some (EpochV (e + 1))
     \<and> started (fst (VAE_train ex_attrs (ex_fw False) VAE_pretrain_encoder True ex_state1)) = py_range (e + 1) (num_epoch ex_attrs)
     \<and> completed (fst (VAE_train ex_attrs (ex_fw True) VAE_pretrain_encoder False ex_state))
         @ completed (fst (VAE_train ex_attrs (ex_fw False) VAE_pretrain_encoder True ex_state1))
         = py_range 0 (num_epoch ex_attrs))
   \<and> distinct (completed (fst (VAE_train ex_attrs (ex_fw True) VAE_pretrain_encoder False ex_state))
         @ completed (fst (VAE_train ex_attrs (ex_fw False) VAE_pretrain_encoder True ex_state1)))"
proof -
  let ?R1 = "VAE_train ex_attrs (ex_fw True) VAE_pretrain_encoder False ex_state"
  let ?R2 = "VAE_train ex_attrs (ex_fw False) VAE_pretrain_encoder True ex_state1"
  have pre: "\<And>s s'. VAE_pretrain_encoder s = Inr s' \<Longrightarrow>
        files s' = files s \<and> started s' = started s \<and> completed s' = completed s"
    for s s' :: "(unit, (unit, unit, unit) ckpt, unit, unit) run_state"
    unfolding VAE_pretrain_encoder_def by simp
  have h: "save_state ex_attrs \<noteq> []" "started ex_state = []" "completed ex_state = []"
    "started ex_state1 = []" "completed ex_state1 = []"
    unfolding ex_attrs_def ex_state_def ex_state1_def by simp_all
  have snd1: "snd ?R1 = Some RuntimeError" unfolding ex_run1 by simp
  have snd2: "snd ?R2 = None" unfolding ex_run2 by simp
  have r1: "?R1 = (fst ?R1, Some RuntimeError)" using snd1 by (metis prod.collapse)
  have r2: "?R2 = (fst ?R2, None)" using snd2 by (metis prod.collapse)
  have c1: "completed (fst ?R1) = [0]" unfolding ex_run1 by simp
  have ne: "completed (fst ?R1) \<noteq> []" unfolding c1 by simp
  have f1: "files ex_state1 = files (fst ?R1)" unfolding ex_run1 ex_state1_def by simp
  from C1_resume_round_trip[OF h(1) pre r1 h(2,3) ne f1 h(4,5) r2]
  obtain e d c where
    "completed (fst ?R1) = py_range 0 (e + 1)" "files (fst ?R1) (save_state ex_attrs) = Some d"
    "map_of d ''epoch'' = Some (EpochV (e + 1))"
    "None = (None :: error option) \<longrightarrow> started (fst ?R2) = py_range (e + 1) (num_epoch ex_attrs)
        \<and> completed (fst ?R1) @ completed (fst ?R2) = py_range 0 (num_epoch ex_attrs)"
    "distinct (completed (fst ?R1) @ completed (fst ?R2))"
    by blast
  then have "(\<exists>e d. completed (fst ?R1) = py_range 0 (e + 1)
     \<and> files (fst ?R1) (save_state ex_attrs) = Some d \<and> map_of d ''epoch'' = Some (EpochV (e + 1))
     \<and> started (fst ?R2) = py_range (e + 1) (num_epoch ex_attrs)
     \<and> completed (fst ?R1) @ completed (fst ?R2) = py_range 0 (num_epoch ex_attrs))"
    "distinct (completed (fst ?R1) @ completed (fst ?R2))"
    by blast+
  with h(1) snd1 c1 f1 snd2 show ?thesis by blast
qed

section \<open>The best model in the classifier loop\<close>

text \<open>
  Claim C4. With \<^verbatim>\<open>validate_batch\<close> and \<^verbatim>\<open>save_best\<close> both set,
  \<^verbatim>\<open>classifier_abstract.train\<close> reads \<^verbatim>\<open>test_loss_penalty.avg\<close> at the end of the
  validation of its first epoch. The function never binds \<^verbatim>\<open>test_loss_penalty\<close>,
  so the run ends there with \<^verbatim>\<open>NameError\<close>: no objective is computed, no model
  is saved, no epoch is completed. \<^verbatim>\<open>VAE_abstract.train\<close>, which has the same
  branch and binds the name, runs to its end on the same input.
\<close>

theorem C4_classifier_name_error:
  "classifier_train ex_attrs (ex_fw False) False ex_state =
     (ex_state\<lparr>started := [0]\<rparr>, Some NameError)
   \<and> snd (VAE_train ex_attrs (ex_fw False) VAE_pretrain_encoder False ex_state) = None"
  unfolding classifier_train_def VAE_train_def ex_attrs_def ex_fw_def ex_state_def
  by (simp add: py_range_def upto_rec1 classifier_epoch_def VAE_epoch_def ebind_def save_best_step_def
      local_avg_def end_of_epoch_single_def save_dict_single_def after_epochs_def Let_def)

section \<open>The format of the checkpoints\<close>

text \<open>
  Claim C6. When the body of an epoch of \<^verbatim>\<open>classifier_abstract.train\<close> or of
  \<^verbatim>\<open>VAE_abstract.train\<close> runs to its end with a non-empty \<^verbatim>\<open>save_state\<close> path, the
  checkpoint it writes has the keys \<^verbatim>\<open>"epoch"\<close>, \<^verbatim>\<open>"model_state_dict"\<close> and
  \<^verbatim>\<open>"optimizer_state_dict"\<close>, and \<^verbatim>\<open>"scheduler"\<close> exactly when \<^verbatim>\<open>lr_schedule\<close> is
  not empty, and no other key. For \<^verbatim>\<open>SSWAE_HSIC_dev.train\<close> the keys are
  \<^verbatim>\<open>"epoch"\<close>, \<^verbatim>\<open>"model_state_dict"\<close>, \<^verbatim>\<open>"optimizer_main_state_dict"\<close> and
  \<^verbatim>\<open>"optimizer_adv_state_dict"\<close>, and \<^verbatim>\<open>"scheduler_main"\<close> and \<^verbatim>\<open>"scheduler_adv"\<close>
  exactly when \<^verbatim>\<open>lr_schedule\<close> is not empty.
\<close>

theorem C6_checkpoint_format:
  "(classifier_epoch self fw e st = (st', None) \<and> save_state self \<noteq> [] \<longrightarrow>
      (\<exists>d. files st' (save_state self) = Some d \<and>
           map fst d = [''epoch'', ''model_state_dict'', ''optimizer_state_dict'']
                         @ (if lr_schedule self \<noteq> [] then [''scheduler''] else [])))
   \<and> (VAE_epoch selfv fwv ev stv = (stv', None) \<and> save_state selfv \<noteq> [] \<longrightarrow>
      (\<exists>d. files stv' (save_state selfv) = Some d \<and>
           map fst d = [''epoch'', ''model_state_dict'', ''optimizer_state_dict'']
                         @ (if lr_schedule selfv \<noteq> [] then [''scheduler''] else [])))
   \<and> (sswae_epoch selfa ms fwa ea sta = (sta', None) \<and> save_state selfa \<noteq> [] \<longrightarrow>
      (\<exists>d. files sta' (save_state selfa) = Some d \<and>
           map fst d = [''epoch'', ''model_state_dict'', ''optimizer_main_state_dict'',
                        ''optimizer_adv_state_dict'']
                         @ (if lr_schedule selfa \<noteq> [] then [''scheduler_main'', ''scheduler_adv''] else [])))"
proof (intro conjI impI; elim conjE)
  assume "classifier_epoch self fw e st = (st', None)" "save_state self \<noteq> []"
  from classifier_epoch_ckpt[OF this] obtain s where
    "files st' (save_state self) = Some (save_dict_single self e s)" ..
  then show "\<exists>d. files st' (save_state self) = Some d \<and>
           map fst d = [''epoch'', ''model_state_dict'', ''optimizer_state_dict'']
                         @ (if lr_schedule self \<noteq> [] then [''scheduler''] else [])"
    using save_dict_single_keys[of self e s] by blast
next
  assume "VAE_epoch selfv fwv ev stv = (stv', None)" "save_state selfv \<noteq> []"
  from VAE_epoch_ckpt[OF this] obtain s where
    "files stv' (save_state selfv) = Some (save_dict_single selfv ev s)" ..
  then show "\<exists>d. files stv' (save_state selfv) = Some d \<and>
           map fst d = [''epoch'', ''model_state_dict'', ''optimizer_state_dict'']
                         @ (if lr_schedule selfv \<noteq> [] then [''scheduler''] else [])"
    using save_dict_single_keys[of selfv ev s] by blast
next
  assume "sswae_epoch selfa ms fwa ea sta = (sta', None)" "save_state selfa \<noteq> []"
  from sswae_epoch_ckpt[OF this] obtain s where
    "files sta' (save_state selfa) = Some (save_dict_adv selfa ea s)" ..
  then show "\<exists>d. files sta' (save_state selfa) = Some d \<and>
           map fst d = [''epoch'', ''model_state_dict'', ''optimizer_main_state_dict'',
                        ''optimizer_adv_state_dict'']
                         @ (if lr_schedule selfa \<noteq> [] then [''scheduler_main'', ''scheduler_adv''] else [])"
    using save_dict_adv_keys[of selfa ea s] by blast
qed

theorem C6_checkpoint_format_witness:
  "snd (classifier_epoch (ex_attrs\<lparr>save_best := False\<rparr>) (ex_fw False) 0 ex_state) = None
   \<and> snd (VAE_epoch (ex_attrs\<lparr>lr_schedule := []\<rparr>) (ex_fw False) 0 ex_state) = None
   \<and> snd (sswae_epoch ex_sswae_attrs ex_methods ex_adv_fw 0 ex_adv_state) = None
   \<and> (\<exists>d. files (fst (classifier_epoch (ex_attrs\<lparr>save_best := False\<rparr>) (ex_fw False) 0 ex_state)) ''ckpt'' = Some d
         \<and> map fst d = [''epoch'', ''model_state_dict'', ''optimizer_state_dict'', ''scheduler''])
   \<and> (\<exists>d. files (fst (VAE_epoch (ex_attrs\<lparr>lr_schedule := []\<rparr>) (ex_fw False) 0 ex_state)) ''ckpt'' = Some d
         \<and> map fst d = [''epoch'', ''model_state_dict'', ''optimizer_state_dict''])
   \<and> (\<exists>d. files (fst (sswae_epoch ex_sswae_attrs ex_methods ex_adv_fw 0 ex_adv_state)) ''ckpt'' = Some d
         \<and> map fst d = [''epoch'', ''model_state_dict'', ''optimizer_main_state_dict'',
                        ''optimizer_adv_state_dict'', ''scheduler_main'', ''scheduler_adv''])"
proof -
  let ?A = "ex_attrs\<lparr>save_best := False\<rparr>"
  let ?V = "ex_attrs\<lparr>lr_schedule := []\<rparr>"
  let ?C = "classifier_epoch ?A (ex_fw False) 0 ex_state"
  let ?E = "VAE_epoch ?V (ex_fw False) 0 ex_state"
  let ?S = "sswae_epoch ex_sswae_attrs ex_methods ex_adv_fw 0 ex_adv_state"
  have v: "snd ?E = None"
    unfolding VAE_epoch_def ex_attrs_def ex_fw_def ex_state_def
    by (simp add: ebind_def save_best_step_def local_avg_def Let_def)
  have c: "?C = (fst ?C, None)" using ex_classifier_epoch by (metis prod.collapse)
  have e: "?E = (fst ?E, None)" using v by (metis prod.collapse)
  have s: "?S = (fst ?S, None)" using ex_sswae_epoch by (metis prod.collapse)
  have a: "save_state ?A = ''ckpt''" "lr_schedule ?A \<noteq> []" "save_state ?V = ''ckpt''" "lr_schedule ?V = []"
    "save_state ex_sswae_attrs = ''ckpt''" "lr_schedule ex_sswae_attrs \<noteq> []"
    unfolding ex_attrs_def ex_sswae_attrs_def by simp_all
  from C6_checkpoint_format[of ?A "ex_fw False" 0 ex_state "fst ?C" ?V "ex_fw False" 0 ex_state "fst ?E"
      ex_sswae_attrs ex_methods ex_adv_fw 0 ex_adv_state "fst ?S"] c e s a
  show ?thesis using ex_classifier_epoch v ex_sswae_epoch by simp
qed

section \<open>Missing keys of the configuration\<close>

text \<open>
  Claim C5. Take a configuration whose section \<^verbatim>\<open>train_info\<close> has no key
  \<^verbatim>\<open>portion\<close>, and let \<^verbatim>\<open>classifier_abstract.__init__\<close> succeed on the
  configuration with the key added: then it succeeds without the key as well,
  and gives the same object but for \<^verbatim>\<open>portion\<close>, which is 1.0. In the same way,
  without the key \<^verbatim>\<open>test_class\<close>, \<^verbatim>\<open>SSWAE_HSIC_dev2.__init__\<close> gives the same
  object but for \<^verbatim>\<open>test_class\<close>, which is the empty list. The constructor of the
  base class is taken not to read the key.
\<close>

theorem C5_missing_config_keys:
  "(cfg ''train_info'' = Some ti \<and> ti ''portion'' = None
      \<and> super_init (cfg(''train_info'' \<mapsto> ti(''portion'' \<mapsto> v))) = super_init cfg
      \<and> classifier_abstract_init b super_init (cfg(''train_info'' \<mapsto> ti(''portion'' \<mapsto> v))) = Inr obj
    \<longrightarrow> classifier_abstract_init b super_init cfg = Inr (obj\<lparr>portion := 1.0\<rparr>))
   \<and> (cfg2 ''train_info'' = Some ti2 \<and> ti2 ''test_class'' = None
      \<and> super_init2 (cfg2(''train_info'' \<mapsto> ti2(''test_class'' \<mapsto> v2))) = super_init2 cfg2
      \<and> SSWAE_HSIC_dev2_init b2 super_init2 (cfg2(''train_info'' \<mapsto> ti2(''test_class'' \<mapsto> v2))) = Inr obj2
    \<longrightarrow> SSWAE_HSIC_dev2_init b2 super_init2 cfg2 = Inr (obj2\<lparr>test_class := []\<rparr>))"
  using classifier_init_absent_portion[of cfg ti super_init v b obj]
    dev2_init_absent_test_class[of cfg2 ti2 super_init2 v2 b2 obj2]
  by blast

theorem C5_missing_config_keys_witness:
  "ex_cfg ''train_info'' = Some ex_section \<and> ex_section ''portion'' = None
   \<and> classifier_abstract_init ex_builtins (\<lambda>c. Inr ()) ex_cfg
       = Inr \<lparr>base = (), loss = CrossEntropyLoss, labeled_class = [1, 2], portion = 1.0\<rparr>
   \<and> (ex_section(''portion'' \<mapsto> ''0.5'')) ''test_class'' = None
   \<and> SSWAE_HSIC_dev2_init ex_builtins (\<lambda>c. Inr ()) (ex_cfg(''train_info'' \<mapsto> ex_section(''portion'' \<mapsto> ''0.5'')))
       = Inr \<lparr>base2 = (), loss2 = MSELoss, disc_loss2 = BCEWithLogitsLoss, f1 = Identity,
            lamb_mmd2 = 1, lamb_hsic2 = 0.5, labeled_class2 = [1, 2], test_class = [],
            portion2 = 0.5, batch_size = 64\<rparr>"
proof -
  have a: "ex_cfg ''train_info'' = Some ex_section" "ex_section ''portion'' = None"
    "(ex_section(''portion'' \<mapsto> ''0.5'')) ''test_class'' = None"
    "(ex_cfg(''train_info'' \<mapsto> ex_section(''portion'' \<mapsto> ''0.5''))) ''train_info''
       = Some (ex_section(''portion'' \<mapsto> ''0.5''))"
    unfolding ex_cfg_def ex_section_def by simp_all
  have u: "(ex_cfg(''train_info'' \<mapsto> ex_section(''portion'' \<mapsto> ''0.5'')))
             (''train_info'' \<mapsto> (ex_section(''portion'' \<mapsto> ''0.5''))(''test_class'' \<mapsto> ''2''))
           = ex_cfg(''train_info'' \<mapsto> ex_section(''portion'' \<mapsto> ''0.5'', ''test_class'' \<mapsto> ''2''))"
    by simp
  from C5_missing_config_keys[of ex_cfg ex_section "\<lambda>c. Inr ()" "''0.5''" ex_builtins
      "\<lparr>base = (), loss = CrossEntropyLoss, labeled_class = [1, 2], portion = 0.5\<rparr>"
      "ex_cfg(''train_info'' \<mapsto> ex_section(''portion'' \<mapsto> ''0.5''))" "ex_section(''portion'' \<mapsto> ''0.5'')"
      "\<lambda>c. Inr ()" "''2''" ex_builtins
      "\<lparr>base2 = (), loss2 = MSELoss, disc_loss2 = BCEWithLogitsLoss, f1 = Identity,
            lamb_mmd2 = 1, lamb_hsic2 = 0.5, labeled_class2 = [1, 2], test_class = [2],
            portion2 = 0.5, batch_size = 64\<rparr>"]
  show ?thesis
    using a ex_classifier_init ex_dev2_init unfolding u by simp
qed

section \<open>The two optimizers\<close>



end
